theory Spec2Isabelle
  imports Complex_Main "HOL-Library.Multiset"
begin

section \<open>OT change validation: correlation engine and validation processor\<close>

text \<open>
  A shallow embedding of the correlation engine (\<^verbatim>\<open>engine/correlator.py\<close>), the
  validation processor (\<^verbatim>\<open>engine/validator.py\<close>), the identifier extraction of the
  connectors (\<^verbatim>\<open>connectors/id_parser.py\<close>, \<^verbatim>\<open>connectors/servicenow_pseg.py\<close>) and the
  transaction discipline of the store (\<^verbatim>\<open>database/db.py\<close>).

  Conventions of the embedding.
  \<^item> A Python \<^verbatim>\<open>str\<close> is a \<open>string\<close>; one \<open>char\<close> is one code point, so the texts
    covered are those of code points 0 to 255.
  \<^item> A Python \<^verbatim>\<open>float\<close> score is a \<open>real\<close>: sums, products and quotients are exact,
    comparisons are the ones of the source.
  \<^item> A \<^verbatim>\<open>datetime\<close> is its date and time fields, counted in microseconds from
    the first instant that the type can hold, and its UTC offset where it has one; a
    \<^verbatim>\<open>timedelta\<close> is a number of microseconds.
  \<^item> An exception that the source does not catch is a value of the type \<open>error\<close>, and
    a function that can raise returns a sum, \<open>Inl\<close> the exception.
  \<^item> A dictionary read with \<^verbatim>\<open>.get\<close> is a record whose optional keys have an
    \<open>option\<close> type.
  \<^item> What the source gets from outside (the ServiceNow lookup, the store's queries,
    \<^verbatim>\<open>datetime.fromisoformat\<close>, \<^verbatim>\<open>datetime.now\<close>, the iteration order of a
    \<^verbatim>\<open>set\<close>) is a parameter of the function that uses it.
\<close>

subsection \<open>Characters and text\<close>

definition lower_letters :: string where
  "lower_letters = ''abcdefghijklmnopqrstuvwxyz''"

definition upper_letters :: string where
  "upper_letters = ''ABCDEFGHIJKLMNOPQRSTUVWXYZ''"

text \<open>\<^verbatim>\<open>str.upper\<close> on the letters a to z; the source applies it to regular-expression
  matches only, which are made of these letters and of digits.\<close>

definition ascii_upper :: "char \<Rightarrow> char" where
  "ascii_upper c = (case map_of (zip lower_letters upper_letters) c of Some u \<Rightarrow> u | None \<Rightarrow> c)"

definition upper :: "string \<Rightarrow> string" where
  "upper s = map ascii_upper s"

text \<open>\<^verbatim>\<open>str.lower\<close> on code points 0 to 255: A to Z, and the letters from 192 to 222
  (215, the multiplication sign, apart), move up by 32.\<close>

definition lower_char :: "char \<Rightarrow> char" where
  "lower_char c =
     (case map_of (zip upper_letters lower_letters) c of
        Some l \<Rightarrow> l
      | None \<Rightarrow> (let n = (of_char c :: nat)
                 in if 192 \<le> n \<and> n \<le> 222 \<and> n \<noteq> 215 then char_of (n + 32) else c))"

definition lower :: "string \<Rightarrow> string" where
  "lower s = map lower_char s"

text \<open>\<^verbatim>\<open>\d\<close> of a \<^verbatim>\<open>str\<close> pattern: the decimal digits (below code point 256 these are
  0 to 9).\<close>

definition is_digit :: "char \<Rightarrow> bool" where
  "is_digit c \<longleftrightarrow> c \<in> set ''0123456789''"

text \<open>A pattern letter under \<^verbatim>\<open>re.IGNORECASE\<close> matches both of its cases.\<close>

definition match_nocase :: "char \<Rightarrow> char \<Rightarrow> bool" where
  "match_nocase p c \<longleftrightarrow> ascii_upper c = ascii_upper p"

text \<open>\<^verbatim>\<open>x in s\<close> for strings: \<open>x\<close> occurs in \<open>s\<close> as a contiguous block.\<close>

fun is_prefix :: "string \<Rightarrow> string \<Rightarrow> bool" where
  "is_prefix [] s = True"
| "is_prefix (x # xs) [] = False"
| "is_prefix (x # xs) (c # cs) = (x = c \<and> is_prefix xs cs)"

fun contains :: "string \<Rightarrow> string \<Rightarrow> bool" where
  "contains x [] = (x = [])"
| "contains x (c # cs) = (is_prefix x (c # cs) \<or> contains x cs)"

subsection \<open>Ticket identifier extraction\<close>

text \<open>The pattern \<^verbatim>\<open>CHG\d{10}\<close> under \<^verbatim>\<open>re.IGNORECASE\<close>, matched at the head of a
  text.\<close>

definition chg_at :: "string \<Rightarrow> bool" where
  "chg_at s \<longleftrightarrow>
     13 \<le> length s \<and> list_all2 match_nocase ''CHG'' (take 3 s) \<and>
     list_all is_digit (take 10 (drop 3 s))"

text \<open>\<^verbatim>\<open>re.findall\<close>: the matches from left to right, the scan going on behind each
  match.\<close>

fun findall_chg :: "string \<Rightarrow> string list" where
  "findall_chg [] = []"
| "findall_chg (c # cs) =
     (if chg_at (c # cs) then take 13 (c # cs) # findall_chg (drop 12 cs)
      else findall_chg cs)"

text \<open>
  \<^verbatim>\<open>ValidationProcessor._extract_chg_numbers\<close>:
  \<^verbatim>\<open>
    if not comment: return []
    matches = re.findall(r'CHG\d{10}', comment, re.IGNORECASE)
    return [m.upper() for m in set(matches)]
  \<close>
  The set of the matches is given by its distinct elements; \<open>set_iter\<close> is the order in
  which Python iterates over it, some rearrangement of them. A comment that is missing or
  \<^verbatim>\<open>None\<close> is \<open>None\<close>.
\<close>

definition extract_chg_numbers :: "(string list \<Rightarrow> string list) \<Rightarrow> string option \<Rightarrow> string list" where
  "extract_chg_numbers set_iter comment =
     (case comment of
        None \<Rightarrow> []
      | Some c \<Rightarrow> if c = [] then [] else map upper (set_iter (remdups (findall_chg c))))"

text \<open>
  \<^verbatim>\<open>IDExceptionParser._parse_row\<close>, the extraction part:
  \<^verbatim>\<open>
    chg_numbers = self.chg_pattern.findall(comment)
    chg_numbers = [c.upper() for c in chg_numbers]
    ... extracted_chg_numbers=list(set(chg_numbers))
  \<close>
\<close>

definition parse_row_chg_numbers :: "(string list \<Rightarrow> string list) \<Rightarrow> string \<Rightarrow> string list" where
  "parse_row_chg_numbers set_iter comment = set_iter (remdups (map upper (findall_chg comment)))"

text \<open>
  \<^verbatim>\<open>extract_chg_numbers_from_comment\<close> of the ServiceNow connector, which removes the
  duplicates after the change of case and keeps the order:
  \<^verbatim>\<open>
    seen = set(); unique = []
    for m in matches:
        upper_m = m.upper()
        if upper_m not in seen:
            seen.add(upper_m); unique.append(upper_m)
    return unique
  \<close>
\<close>

fun unique_loop :: "string list \<Rightarrow> string set \<Rightarrow> string list \<Rightarrow> string list" where
  "unique_loop [] seen unique = unique"
| "unique_loop (m # ms) seen unique =
     (let upper_m = upper m
      in if upper_m \<notin> seen then unique_loop ms (insert upper_m seen) (unique @ [upper_m])
         else unique_loop ms seen unique)"

definition extract_chg_numbers_from_comment :: "string option \<Rightarrow> string list" where
  "extract_chg_numbers_from_comment comment =
     (case comment of
        None \<Rightarrow> []
      | Some c \<Rightarrow> if c = [] then [] else unique_loop (findall_chg c) {} [])"

subsection \<open>Dates and the time factor\<close>

text \<open>The exceptions that leave the functions embedded here: the \<^verbatim>\<open>TypeError\<close> and
  the \<^verbatim>\<open>OverflowError\<close> of the \<^verbatim>\<open>datetime\<close> operations, and an error of the
  database.\<close>

datatype error = TypeError | OverflowError | DatabaseError

text \<open>
  A \<^verbatim>\<open>datetime\<close>: \<open>wall\<close> is what its fields from the year to the microsecond
  show, in microseconds from \<^verbatim>\<open>datetime.min\<close>; \<open>utcoffset\<close> is the result of
  \<^verbatim>\<open>utcoffset()\<close>, in microseconds, \<open>None\<close> for a naive value. \<open>MAX_WALL\<close> is
  \<^verbatim>\<open>datetime.max\<close>, the last microsecond of the year 9999.
\<close>

record datetime =
  wall :: int
  utcoffset :: "int option"

definition MAX_WALL :: int where
  "MAX_WALL = 315537897599999999"

text \<open>Two aware values are compared and subtracted as instants of UTC, two naive ones by
  their fields; \<^verbatim>\<open><=\<close>, \<^verbatim>\<open><\<close> and \<^verbatim>\<open>-\<close> raise \<^verbatim>\<open>TypeError\<close> for a naive
  and an aware value.\<close>

definition utc_instant :: "datetime \<Rightarrow> int" where
  "utc_instant d = wall d - (case utcoffset d of None \<Rightarrow> 0 | Some off \<Rightarrow> off)"

definition same_kind :: "datetime \<Rightarrow> datetime \<Rightarrow> bool" where
  "same_kind a b \<longleftrightarrow> (utcoffset a = None) = (utcoffset b = None)"

definition dt_le :: "datetime \<Rightarrow> datetime \<Rightarrow> error + bool" where
  "dt_le a b = (if same_kind a b then Inr (utc_instant a \<le> utc_instant b) else Inl TypeError)"

definition dt_lt :: "datetime \<Rightarrow> datetime \<Rightarrow> error + bool" where
  "dt_lt a b = (if same_kind a b then Inr (utc_instant a < utc_instant b) else Inl TypeError)"

definition dt_sub :: "datetime \<Rightarrow> datetime \<Rightarrow> error + int" where
  "dt_sub a b = (if same_kind a b then Inr (utc_instant a - utc_instant b) else Inl TypeError)"

text \<open>\<^verbatim>\<open>a <= b <= c\<close>: the second comparison is made only when the first holds.\<close>

definition dt_between :: "datetime \<Rightarrow> datetime \<Rightarrow> datetime \<Rightarrow> error + bool" where
  "dt_between a b c =
     (case dt_le a b of
        Inl e \<Rightarrow> Inl e
      | Inr first \<Rightarrow> if first then dt_le b c else Inr False)"

text \<open>\<^verbatim>\<open>d + td\<close> (and \<^verbatim>\<open>d - td\<close>, with \<open>- td\<close>): the fields move, the offset
  stays; \<^verbatim>\<open>OverflowError\<close> when the result leaves the years 1 to 9999.\<close>

definition dt_add :: "datetime \<Rightarrow> int \<Rightarrow> error + datetime" where
  "dt_add d td =
     (if 0 \<le> wall d + td \<and> wall d + td \<le> MAX_WALL then Inr (d\<lparr>wall := wall d + td\<rparr>)
      else Inl OverflowError)"

text \<open>
  A value found where a date is expected: a \<^verbatim>\<open>datetime\<close> object, a \<^verbatim>\<open>str\<close>, or
  anything else (\<^verbatim>\<open>None\<close>, a missing key). \<open>fromisoformat\<close> stands for
  \<^verbatim>\<open>datetime.fromisoformat\<close>; \<open>None\<close> is its \<^verbatim>\<open>ValueError\<close>.
\<close>

datatype dt_value = DtObject datetime | DtString string | DtOther

definition replace_char :: "char \<Rightarrow> string \<Rightarrow> string \<Rightarrow> string" where
  "replace_char old new s = concat (map (\<lambda>c. if c = old then new else [c]) s)"

text \<open>
  \<^verbatim>\<open>parse_dt\<close>, local to \<^verbatim>\<open>_time_score\<close>:
  \<^verbatim>\<open>
    if isinstance(dt, datetime): return dt
    if isinstance(dt, str):
        try: return datetime.fromisoformat(dt.replace('Z', '+00:00'))
        except ValueError: return None
    return None
  \<close>
\<close>

definition parse_dt :: "(string \<Rightarrow> datetime option) \<Rightarrow> dt_value \<Rightarrow> datetime option" where
  "parse_dt fromisoformat dt =
     (case dt of
        DtObject d \<Rightarrow> Some d
      | DtString s \<Rightarrow> fromisoformat (replace_char CHR ''Z'' ''+00:00'' s)
      | DtOther \<Rightarrow> None)"

definition TIME_BUFFER_HOURS :: int where
  "TIME_BUFFER_HOURS = 24"

definition timedelta_hours :: "int \<Rightarrow> int" where
  "timedelta_hours h = h * 3600000000"

definition total_seconds :: "int \<Rightarrow> real" where
  "total_seconds td = real_of_int td / 1000000"

text \<open>
  \<^verbatim>\<open>CorrelationEngine._time_score\<close>:
  \<^verbatim>\<open>
    detected = parse_dt(detected_at); start = parse_dt(scheduled_start)
    end = parse_dt(scheduled_end)
    if not detected or not start: return 0.0
    if not end: end = start + timedelta(hours=24)
    buffer = timedelta(hours=self.TIME_BUFFER_HOURS)
    window_start = start - buffer
    window_end = end + buffer
    if start <= detected <= end: return 1.0
    if window_start <= detected <= window_end:
        if detected < start:
            hours_outside = (start - detected).total_seconds() / 3600
        else:
            hours_outside = (detected - end).total_seconds() / 3600
        return max(0, 1 - (hours_outside / self.TIME_BUFFER_HOURS) * 0.5)
    return 0.0
  \<close>
  \<open>window_end_of\<close> is the end that the function works with, \<open>decay\<close> the value that
  it returns in the buffer zone.
\<close>

definition window_end_of :: "(string \<Rightarrow> datetime option) \<Rightarrow> datetime \<Rightarrow> dt_value \<Rightarrow> error + datetime" where
  "window_end_of fromisoformat start scheduled_end =
     (case parse_dt fromisoformat scheduled_end of
        None \<Rightarrow> dt_add start (timedelta_hours 24)
      | Some e \<Rightarrow> Inr e)"

definition decay :: "real \<Rightarrow> real" where
  "decay h = max 0 (1 - (h / real_of_int TIME_BUFFER_HOURS) * 0.5)"

definition time_score :: "(string \<Rightarrow> datetime option) \<Rightarrow> dt_value \<Rightarrow> dt_value \<Rightarrow> dt_value \<Rightarrow> error + real" where
  "time_score fromisoformat detected_at scheduled_start scheduled_end =
     (case parse_dt fromisoformat detected_at of
        None \<Rightarrow> Inr 0
      | Some detected \<Rightarrow>
         (case parse_dt fromisoformat scheduled_start of
            None \<Rightarrow> Inr 0
          | Some start \<Rightarrow>
             (case window_end_of fromisoformat start scheduled_end of
                Inl err \<Rightarrow> Inl err
              | Inr end_t \<Rightarrow>
                 (let buffer = timedelta_hours TIME_BUFFER_HOURS
                  in case dt_add start (- buffer) of
                       Inl err \<Rightarrow> Inl err
                     | Inr window_start \<Rightarrow>
                        (case dt_add end_t buffer of
                           Inl err \<Rightarrow> Inl err
                         | Inr window_end \<Rightarrow>
                            (case dt_between start detected end_t of
                               Inl err \<Rightarrow> Inl err
                             | Inr inside \<Rightarrow>
                                if inside then Inr 1
                                else (case dt_between window_start detected window_end of
                                        Inl err \<Rightarrow> Inl err
                                      | Inr near \<Rightarrow>
                                         if near then
                                           (case dt_lt detected start of
                                              Inl err \<Rightarrow> Inl err
                                            | Inr before \<Rightarrow>
                                               (case (if before then dt_sub start detected
                                                      else dt_sub detected end_t) of
                                                  Inl err \<Rightarrow> Inl err
                                                | Inr td \<Rightarrow>
                                                   Inr (decay (total_seconds td / 3600))))
                                         else Inr 0)))))))"

text \<open>How far, in hours, an instant lies outside the window from \<open>start\<close> to \<open>end_t\<close>;
  zero inside it.\<close>

definition hours_outside :: "datetime \<Rightarrow> datetime \<Rightarrow> datetime \<Rightarrow> real" where
  "hours_outside detected start end_t =
     (if utc_instant detected < utc_instant start
      then total_seconds (utc_instant start - utc_instant detected) / 3600
      else if utc_instant end_t < utc_instant detected
      then total_seconds (utc_instant detected - utc_instant end_t) / 3600
      else 0)"

text \<open>The dates on which \<^verbatim>\<open>_time_score\<close> raises nothing: a detection time, a start
  and an end of one kind, all naive or all aware, and a window that lies at least
  \<^verbatim>\<open>TIME_BUFFER_HOURS\<close> inside the range of \<^verbatim>\<open>datetime\<close>.\<close>

definition comparable :: "datetime \<Rightarrow> datetime \<Rightarrow> datetime \<Rightarrow> bool" where
  "comparable detected start end_t \<longleftrightarrow>
     same_kind detected start \<and> same_kind detected end_t \<and>
     timedelta_hours TIME_BUFFER_HOURS \<le> wall start \<and> wall start \<le> MAX_WALL \<and>
     0 \<le> wall end_t \<and> wall end_t + timedelta_hours TIME_BUFFER_HOURS \<le> MAX_WALL"

subsection \<open>The asset factor\<close>

text \<open>
  \<^verbatim>\<open>difflib.SequenceMatcher(None, a, b).ratio()\<close> of the Python library, on which
  \<^verbatim>\<open>_asset_similarity\<close> relies. With no junk function given, the only elements left
  out of the index of \<open>b\<close> are the popular ones: those that occur more than
  \<^verbatim>\<open>len(b) // 100 + 1\<close> times in a \<open>b\<close> of 200 elements or more.

  \<^verbatim>\<open>find_longest_match\<close> keeps, for the element \<^verbatim>\<open>a[i]\<close>, the length of the longest
  match that ends at \<^verbatim>\<open>a[i]\<close> and \<^verbatim>\<open>b[j]\<close> (\<open>lm_row\<close>; 0 where the dictionary
  \<^verbatim>\<open>j2len\<close> has no entry), takes the first strictly longer match in the order of \<open>i\<close>
  and then \<open>j\<close> (\<open>lm_best\<close>, \<open>lm_scan\<close>), and extends it at both ends over equal
  elements. Here it works on the slices \<^verbatim>\<open>a[alo:ahi]\<close> and \<^verbatim>\<open>b[blo:bhi]\<close>, the
  positions counted from their starts.
\<close>

definition is_popular :: "string \<Rightarrow> char \<Rightarrow> bool" where
  "is_popular b c \<longleftrightarrow> 200 \<le> length b \<and> length b div 100 + 1 < count_list b c"

definition lm_row :: "(char \<Rightarrow> bool) \<Rightarrow> char \<Rightarrow> string \<Rightarrow> nat list \<Rightarrow> nat list" where
  "lm_row pop x b j2len = map2 (\<lambda>y k. if y = x \<and> \<not> pop y then k + 1 else 0) b (0 # j2len)"

fun lm_best :: "nat \<Rightarrow> nat \<Rightarrow> nat list \<Rightarrow> nat \<times> nat \<times> nat \<Rightarrow> nat \<times> nat \<times> nat" where
  "lm_best i j [] best = best"
| "lm_best i j (k # ks) (besti, bestj, bestsize) =
     lm_best i (j + 1) ks
       (if bestsize < k then (i + 1 - k, j + 1 - k, k) else (besti, bestj, bestsize))"

fun lm_scan :: "(char \<Rightarrow> bool) \<Rightarrow> string \<Rightarrow> string \<Rightarrow> nat \<Rightarrow> nat list \<Rightarrow> nat \<times> nat \<times> nat
    \<Rightarrow> nat \<times> nat \<times> nat" where
  "lm_scan pop [] b i j2len best = best"
| "lm_scan pop (x # xs) b i j2len best =
     (let newj2len = lm_row pop x b j2len
      in lm_scan pop xs b (i + 1) newj2len (lm_best i 0 newj2len best))"

fun extend_left :: "string \<Rightarrow> string \<Rightarrow> nat \<times> nat \<times> nat \<Rightarrow> nat \<times> nat \<times> nat" where
  "extend_left a b (0, j, k) = (0, j, k)"
| "extend_left a b (Suc i, 0, k) = (Suc i, 0, k)"
| "extend_left a b (Suc i, Suc j, k) =
     (if a ! i = b ! j then extend_left a b (i, j, k + 1) else (Suc i, Suc j, k))"

function extend_right :: "string \<Rightarrow> string \<Rightarrow> nat \<times> nat \<times> nat \<Rightarrow> nat \<times> nat \<times> nat" where
  "extend_right a b (i, j, k) =
     (if i + k < length a \<and> j + k < length b \<and> a ! (i + k) = b ! (j + k)
      then extend_right a b (i, j, k + 1) else (i, j, k))"
  by pat_completeness auto
termination
  by (relation "measure (\<lambda>(a, b, i, j, k). length a - (i + k))") auto

definition find_longest_match :: "(char \<Rightarrow> bool) \<Rightarrow> string \<Rightarrow> string \<Rightarrow> nat \<times> nat \<times> nat" where
  "find_longest_match pop a b =
     extend_right a b (extend_left a b (lm_scan pop a b 0 (replicate (length b) 0) (0, 0, 0)))"

definition in_bounds :: "nat \<Rightarrow> nat \<Rightarrow> nat \<times> nat \<times> nat \<Rightarrow> bool" where
  "in_bounds la lb m = (case m of (i, j, k) \<Rightarrow> i + k \<le> la \<and> j + k \<le> lb)"

text \<open>The match found lies inside both sequences, which is what the recursion of
  \<^verbatim>\<open>get_matching_blocks\<close> needs to end.\<close>

lemma lm_row_length: "length j2len = length b \<Longrightarrow> length (lm_row pop x b j2len) = length b"
  by (simp add: lm_row_def)

definition row_ok :: "nat \<Rightarrow> nat \<Rightarrow> nat list \<Rightarrow> bool" where
  "row_ok i j ks \<longleftrightarrow> (\<forall>n < length ks. ks ! n \<le> i \<and> ks ! n \<le> j + n)"

lemma row_ok_Cons: "row_ok i j (k # ks) \<longleftrightarrow> k \<le> i \<and> k \<le> j \<and> row_ok i (Suc j) ks"
  by (auto simp: row_ok_def nth_Cons split: nat.splits)

lemma lm_row_ok:
  assumes "row_ok i (Suc 0) j2len" and "length j2len = length b"
  shows "row_ok (Suc i) (Suc 0) (lm_row pop x b j2len)"
proof -
  have "(0 # j2len) ! n \<le> i \<and> (0 # j2len) ! n \<le> n" if "n < length b" for n
    using assms that by (cases n) (auto simp: row_ok_def)
  then show ?thesis
    using assms(2) by (auto simp: row_ok_def lm_row_def)
qed

lemma lm_best_bounds:
  "in_bounds la lb best \<Longrightarrow> i < la \<Longrightarrow> j + length ks \<le> lb \<Longrightarrow> row_ok (Suc i) (Suc j) ks \<Longrightarrow>
   in_bounds la lb (lm_best i j ks best)"
proof (induction i j ks best rule: lm_best.induct)
  case (1 i j best)
  then show ?case by simp
next
  case (2 i j k ks besti bestj bestsize)
  then show ?case by (auto simp: in_bounds_def row_ok_Cons)
qed

lemma lm_scan_bounds:
  "in_bounds (i + length xs) (length b) best \<Longrightarrow> length j2len = length b \<Longrightarrow> row_ok i (Suc 0) j2len \<Longrightarrow>
   in_bounds (i + length xs) (length b) (lm_scan pop xs b i j2len best)"
proof (induction xs arbitrary: i j2len best)
  case Nil
  then show ?case by simp
next
  case (Cons x xs)
  have ok: "row_ok (Suc i) (Suc 0) (lm_row pop x b j2len)"
    using Cons.prems by (simp add: lm_row_ok)
  have "in_bounds (Suc i + length xs) (length b) (lm_best i 0 (lm_row pop x b j2len) best)"
    using Cons.prems ok by (intro lm_best_bounds) (auto simp: lm_row_length)
  then show ?case
    using Cons.IH [of "Suc i" "lm_best i 0 (lm_row pop x b j2len) best" "lm_row pop x b j2len"]
      Cons.prems ok
    by (simp add: Let_def lm_row_length)
qed

lemma extend_left_bounds: "in_bounds la lb m \<Longrightarrow> in_bounds la lb (extend_left a b m)"
  by (induction a b m rule: extend_left.induct) (auto simp: in_bounds_def)

lemma extend_right_bounds:
  "in_bounds (length a) (length b) m \<Longrightarrow> in_bounds (length a) (length b) (extend_right a b m)"
  by (induction a b m rule: extend_right.induct) (auto simp: in_bounds_def)

lemma find_longest_match_bounds:
  "find_longest_match pop a b = (i, j, k) \<Longrightarrow> i + k \<le> length a \<and> j + k \<le> length b"
proof -
  have "in_bounds (0 + length a) (length b) (lm_scan pop a b 0 (replicate (length b) 0) (0, 0, 0))"
    by (rule lm_scan_bounds) (simp_all add: in_bounds_def row_ok_def)
  then have "in_bounds (length a) (length b) (find_longest_match pop a b)"
    unfolding find_longest_match_def by (simp add: extend_left_bounds extend_right_bounds)
  then show "find_longest_match pop a b = (i, j, k) \<Longrightarrow> i + k \<le> length a \<and> j + k \<le> length b"
    by (simp add: in_bounds_def)
qed

text \<open>
  \<^verbatim>\<open>get_matching_blocks\<close> and the sum that \<^verbatim>\<open>ratio\<close> takes over it: the size of the
  longest match, and the sizes for what lies to its left and to its right.
\<close>

function matching_size :: "(char \<Rightarrow> bool) \<Rightarrow> string \<Rightarrow> string \<Rightarrow> nat" where
  "matching_size pop a b =
     (case find_longest_match pop a b of
        (i, j, k) \<Rightarrow>
          if k = 0 then 0
          else k + (if 0 < i \<and> 0 < j then matching_size pop (take i a) (take j b) else 0)
                 + (if i + k < length a \<and> j + k < length b
                    then matching_size pop (drop (i + k) a) (drop (j + k) b) else 0))"
  by pat_completeness auto
termination
proof (relation "measure (\<lambda>(pop, a, b). length a)", goal_cases)
  case 1
  then show ?case by simp
next
  case (2 pop a b i jk j k)
  then have "find_longest_match pop a b = (i, j, k)" by simp
  from find_longest_match_bounds [OF this] 2 show ?case by simp
next
  case 3
  then show ?case by auto
qed

declare matching_size.simps [simp del]

text \<open>\<^verbatim>\<open>ratio\<close>: \<^verbatim>\<open>2.0 * matches / length\<close>, and 1.0 for two empty sequences.\<close>

definition ratio :: "string \<Rightarrow> string \<Rightarrow> real" where
  "ratio a b =
     (let matches = matching_size (is_popular b) a b; total = length a + length b
      in if total \<noteq> 0 then 2 * real matches / real total else 1)"

text \<open>\<^verbatim>\<open>str.split()\<close> with no argument: the words between runs of white space (code
  points 9 to 13, 28 to 32, 133 and 160).\<close>

definition is_space :: "char \<Rightarrow> bool" where
  "is_space c \<longleftrightarrow> (of_char c :: nat) \<in> set [9, 10, 11, 12, 13, 28, 29, 30, 31, 32, 133, 160]"

fun split_loop :: "string \<Rightarrow> string \<Rightarrow> string list" where
  "split_loop [] word = (if word = [] then [] else [word])"
| "split_loop (c # cs) word =
     (if is_space c then (if word = [] then split_loop cs [] else word # split_loop cs [])
      else split_loop cs (word @ [c]))"

definition split_ws :: "string \<Rightarrow> string list" where
  "split_ws s = split_loop s []"

text \<open>\<^verbatim>\<open>set(name.replace('-', ' ').replace('_', ' ').split())\<close>\<close>

definition tokens :: "string \<Rightarrow> string set" where
  "tokens name = set (split_ws (replace_char CHR ''_'' '' '' (replace_char CHR ''-'' '' '' name)))"

text \<open>
  \<^verbatim>\<open>CorrelationEngine._asset_similarity\<close>:
  \<^verbatim>\<open>
    if not alert_asset or not change_asset: return 0.0
    if alert_asset == change_asset: return 1.0
    if alert_asset in change_asset or change_asset in alert_asset: return 0.9
    ratio = SequenceMatcher(None, alert_asset, change_asset).ratio()
    alert_tokens = set(alert_asset.replace('-', ' ').replace('_', ' ').split())
    change_tokens = set(change_asset.replace('-', ' ').replace('_', ' ').split())
    if alert_tokens and change_tokens:
        token_overlap = len(alert_tokens & change_tokens) / len(alert_tokens | change_tokens)
        ratio = max(ratio, token_overlap)
    return ratio
  \<close>
  A name that is missing or \<^verbatim>\<open>None\<close> is \<open>None\<close>.
\<close>

definition asset_similarity :: "string option \<Rightarrow> string option \<Rightarrow> real" where
  "asset_similarity alert_asset change_asset =
     (case (alert_asset, change_asset) of
        (Some a, Some c) \<Rightarrow>
          if a = [] \<or> c = [] then 0
          else if a = c then 1
          else if contains a c \<or> contains c a then 0.9
          else (let r = ratio a c; alert_tokens = tokens a; change_tokens = tokens c
                in if alert_tokens \<noteq> {} \<and> change_tokens \<noteq> {}
                   then max r (real (card (alert_tokens \<inter> change_tokens))
                               / real (card (alert_tokens \<union> change_tokens)))
                   else r)
      | _ \<Rightarrow> 0)"

subsection \<open>The type factor and the identifier factor\<close>

definition CHANGE_TYPE_MAPPINGS :: "(string \<times> string list) list" where
  "CHANGE_TYPE_MAPPINGS =
     [(''software'', [''patch'', ''software'', ''install'', ''update'']),
      (''service'', [''config'', ''software'', ''service'']),
      (''user'', [''user'', ''access'', ''account'']),
      (''config'', [''config'', ''setting'', ''parameter'']),
      (''file'', [''config'', ''software'', ''patch'']),
      (''registry'', [''config'', ''software'']),
      (''firewall'', [''config'', ''network'', ''firewall'']),
      (''patch'', [''patch'', ''update'', ''hotfix''])]"

text \<open>
  \<^verbatim>\<open>CorrelationEngine._type_match\<close>:
  \<^verbatim>\<open>
    if not alert_category or not change_type: return 0.5
    alert_cat = alert_category.lower(); change_t = change_type.lower()
    if alert_cat == change_t: return 1.0
    expected_types = self.CHANGE_TYPE_MAPPINGS.get(alert_cat, [])
    if change_t in expected_types: return 1.0
    if set(alert_cat.split()) & set(change_t.split()): return 0.7
    return 0.3
  \<close>
\<close>

definition type_match :: "string option \<Rightarrow> string option \<Rightarrow> real" where
  "type_match alert_category change_type =
     (case (alert_category, change_type) of
        (Some ac, Some ct) \<Rightarrow>
          if ac = [] \<or> ct = [] then 0.5
          else (let alert_cat = lower ac; change_t = lower ct;
                    expected_types = (case map_of CHANGE_TYPE_MAPPINGS alert_cat of
                                        None \<Rightarrow> [] | Some ts \<Rightarrow> ts)
                in if alert_cat = change_t then 1
                   else if change_t \<in> set expected_types then 1
                   else if set (split_ws alert_cat) \<inter> set (split_ws change_t) \<noteq> {} then 0.7
                   else 0.3)
      | _ \<Rightarrow> 0.5)"

text \<open>\<^verbatim>\<open>\d{6,7}\<close> at the head of a text: seven digits where there are seven, else six.\<close>

definition digits_6_7 :: "string \<Rightarrow> string option" where
  "digits_6_7 s =
     (if 7 \<le> length s \<and> list_all is_digit (take 7 s) then Some (take 7 s)
      else if 6 \<le> length s \<and> list_all is_digit (take 6 s) then Some (take 6 s)
      else None)"

text \<open>\<^verbatim>\<open>KB[- ]?(\d{6,7})\<close> under \<^verbatim>\<open>re.IGNORECASE\<close> at the head of a text: the group
  and the length of the whole match.\<close>

definition kb_sep_at :: "string \<Rightarrow> (string \<times> nat) option" where
  "kb_sep_at s =
     (if 2 \<le> length s \<and> list_all2 match_nocase ''KB'' (take 2 s) then
        (let rest = drop 2 s;
             sep = (case rest of
                      [] \<Rightarrow> 0
                    | c # cs \<Rightarrow> if c = CHR ''-'' \<or> c = CHR '' '' then 1 else (0::nat))
         in case digits_6_7 (drop sep rest) of
              None \<Rightarrow> None
            | Some g \<Rightarrow> Some (g, 2 + sep + length g))
      else None)"

fun findall_kb_sep :: "string \<Rightarrow> string list" where
  "findall_kb_sep [] = []"
| "findall_kb_sep (c # cs) =
     (case kb_sep_at (c # cs) of
        None \<Rightarrow> findall_kb_sep cs
      | Some m \<Rightarrow> fst m # findall_kb_sep (drop (snd m - 1) cs))"

text \<open>\<^verbatim>\<open>re.sub(r'^KB[- ]?', '', kb)\<close>, which is sensitive to case.\<close>

definition strip_kb_prefix :: "string \<Rightarrow> string" where
  "strip_kb_prefix kb =
     (if is_prefix ''KB'' kb then
        (case drop 2 kb of
           [] \<Rightarrow> []
         | c # cs \<Rightarrow> if c = CHR ''-'' \<or> c = CHR '' '' then cs else c # cs)
      else kb)"

text \<open>
  \<^verbatim>\<open>CorrelationEngine._kb_match\<close>:
  \<^verbatim>\<open>
    if not alert_detail: return 0.5
    alert_kbs = set(re.findall(r'KB[- ]?(\d{6,7})', alert_detail, re.IGNORECASE))
    if not alert_kbs: return 0.5
    try: change_kbs = set(json.loads(kb_articles_json))
    except (json.JSONDecodeError, TypeError): change_kbs = set()
    change_kbs = {re.sub(r'^KB[- ]?', '', kb) for kb in change_kbs}
    if not change_kbs:
        for kb in alert_kbs:
            if self.db.is_kb_approved(f'KB{kb}'): return 1.0
        return 0.5
    if alert_kbs & change_kbs: return 1.0
    return 0.3
  \<close>
  The \<^verbatim>\<open>kb_articles\<close> column is given decoded: the list of strings of its JSON array,
  or \<open>None\<close> where the key is missing (an empty array then) or the text does not decode.
\<close>

definition kb_match :: "(string \<Rightarrow> bool) \<Rightarrow> string option \<Rightarrow> string list option \<Rightarrow> real" where
  "kb_match is_kb_approved alert_detail kb_articles =
     (case alert_detail of
        None \<Rightarrow> 0.5
      | Some detail \<Rightarrow>
          if detail = [] then 0.5
          else (let alert_kbs = set (findall_kb_sep detail)
                in if alert_kbs = {} then 0.5
                   else (let change_kbs = strip_kb_prefix `
                               (case kb_articles of None \<Rightarrow> {} | Some l \<Rightarrow> set l)
                         in if change_kbs = {} then
                              (if \<exists>kb \<in> alert_kbs. is_kb_approved (''KB'' @ kb) then 1 else 0.5)
                            else if alert_kbs \<inter> change_kbs \<noteq> {} then 1
                            else 0.3)))"

subsection \<open>Scoring and selection\<close>

record alert =
  asset_name :: "string option"
  asset_name_normalized :: "string option"
  change_category :: "string option"
  change_detail :: "string option"
  detected_at :: dt_value

text \<open>A change record: a row of the \<^verbatim>\<open>changes\<close> table, or what the ServiceNow
  connector returns (which has a \<^verbatim>\<open>state\<close>). \<open>change_id\<close> is the key \<^verbatim>\<open>id\<close>;
  the candidates of \<^verbatim>\<open>correlate\<close> are rows, which have it and a \<^verbatim>\<open>ticket_id\<close>.\<close>

record change =
  change_id :: int
  ticket_id :: string
  change_asset_name_normalized :: "string option"
  change_type :: "string option"
  scheduled_start :: dt_value
  scheduled_end :: dt_value
  kb_articles :: "string list option"
  approval_status :: "string option"
  state :: "string option"

record factors =
  factor_asset :: real
  factor_time :: real
  factor_type :: real
  factor_kb :: real

definition WEIGHTS :: factors where
  "WEIGHTS = \<lparr>factor_asset = 0.40, factor_time = 0.30, factor_type = 0.20, factor_kb = 0.10\<rparr>"

definition AUTO_VALIDATE_THRESHOLD :: real where
  "AUTO_VALIDATE_THRESHOLD = 0.95"

definition MINIMUM_MATCH_THRESHOLD :: real where
  "MINIMUM_MATCH_THRESHOLD = 0.50"

text \<open>The part of the store that the engine reads.\<close>

record store =
  get_changes_in_window :: "datetime \<Rightarrow> datetime \<Rightarrow> string option \<Rightarrow> change list"
  is_kb_approved :: "string \<Rightarrow> bool"

text \<open>
  \<^verbatim>\<open>CorrelationEngine._calculate_score\<close>: the four factors in the order asset, time,
  type, kb, and \<^verbatim>\<open>sum(factors[k] * self.WEIGHTS[k] for k in factors)\<close> in the order in
  which the factors were entered. An exception of \<^verbatim>\<open>_time_score\<close> leaves the
  function.
\<close>

definition calculate_score ::
    "(string \<Rightarrow> datetime option) \<Rightarrow> store \<Rightarrow> alert \<Rightarrow> change \<Rightarrow> error + real \<times> factors" where
  "calculate_score fromisoformat db alert change =
     (case time_score fromisoformat (detected_at alert) (scheduled_start change)
             (scheduled_end change) of
        Inl err \<Rightarrow> Inl err
      | Inr time \<Rightarrow>
         (let fs = \<lparr>factor_asset = asset_similarity (asset_name_normalized alert)
                                      (change_asset_name_normalized change),
                    factor_time = time,
                    factor_type = type_match (change_category alert) (change_type change),
                    factor_kb = kb_match (is_kb_approved db) (change_detail alert)
                                  (kb_articles change)\<rparr>;
              total = 0 + factor_asset fs * factor_asset WEIGHTS
                        + factor_time fs * factor_time WEIGHTS
                        + factor_type fs * factor_type WEIGHTS
                        + factor_kb fs * factor_kb WEIGHTS
          in Inr (total, fs)))"

record correlation_result =
  result_change_id :: int
  result_ticket_id :: string
  score :: real
  result_factors :: factors
  is_auto_validated :: bool
  validation_rule :: "string option"

text \<open>\<^verbatim>\<open>sep.join(parts)\<close>\<close>

fun join :: "string \<Rightarrow> string list \<Rightarrow> string" where
  "join sep [] = []"
| "join sep [x] = x"
| "join sep (x # y # ys) = x @ sep @ join sep (y # ys)"

text \<open>
  \<^verbatim>\<open>CorrelationEngine._get_validation_rule\<close>:
  \<^verbatim>\<open>
    if score < self.AUTO_VALIDATE_THRESHOLD: return None
    rules = []
    if factors['asset'] >= 0.95: rules.append('exact_asset_match')
    if factors['time'] >= 1.0: rules.append('within_change_window')
    if factors['kb'] >= 1.0: rules.append('kb_article_match')
    if change.get('approval_status') == 'approved': rules.append('ticket_approved')
    return '+'.join(rules) if rules else 'high_confidence_match'
  \<close>
\<close>

definition get_validation_rule :: "real \<Rightarrow> factors \<Rightarrow> change \<Rightarrow> string option" where
  "get_validation_rule sc fs change =
     (if sc < AUTO_VALIDATE_THRESHOLD then None
      else (let rules = (if factor_asset fs \<ge> 0.95 then [''exact_asset_match''] else [])
                      @ (if factor_time fs \<ge> 1 then [''within_change_window''] else [])
                      @ (if factor_kb fs \<ge> 1 then [''kb_article_match''] else [])
                      @ (if approval_status change = Some ''approved'' then [''ticket_approved''] else [])
            in Some (if rules \<noteq> [] then join ''+'' rules else ''high_confidence_match'')))"

text \<open>
  \<^verbatim>\<open>CorrelationEngine._get_candidate_changes\<close>: a detection time that is a string
  which does not parse, or is no date at all, is replaced by \<^verbatim>\<open>datetime.now()\<close>; the
  store is asked for the changes from 48 hours before the detection to 24 hours after it,
  and for the first three characters of the asset name where there is a name.
  \<^verbatim>\<open>
    search_start = detected_at - timedelta(hours=self.TIME_BUFFER_HOURS * 2)
    search_end = detected_at + timedelta(hours=self.TIME_BUFFER_HOURS)
  \<close>
\<close>

definition get_candidate_changes ::
    "(string \<Rightarrow> datetime option) \<Rightarrow> datetime \<Rightarrow> store \<Rightarrow> alert \<Rightarrow> error + change list" where
  "get_candidate_changes fromisoformat now db alert =
     (let detected = (case detected_at alert of
                        DtString s \<Rightarrow> (case fromisoformat (replace_char CHR ''Z'' ''+00:00'' s) of
                                         Some d \<Rightarrow> d | None \<Rightarrow> now)
                      | DtObject d \<Rightarrow> d
                      | DtOther \<Rightarrow> now)
      in case dt_add detected (- timedelta_hours (TIME_BUFFER_HOURS * 2)) of
           Inl err \<Rightarrow> Inl err
         | Inr search_start \<Rightarrow>
            (case dt_add detected (timedelta_hours TIME_BUFFER_HOURS) of
               Inl err \<Rightarrow> Inl err
             | Inr search_end \<Rightarrow>
                Inr (get_changes_in_window db search_start search_end
                       (case asset_name_normalized alert of
                          None \<Rightarrow> None
                        | Some name \<Rightarrow> if name = [] then None else Some (take 3 name)))))"

text \<open>The \<^verbatim>\<open>CorrelationResult\<close> that \<^verbatim>\<open>correlate\<close> builds for a candidate.\<close>

definition make_result :: "change \<Rightarrow> real \<Rightarrow> factors \<Rightarrow> correlation_result" where
  "make_result change sc fs =
     \<lparr>result_change_id = change_id change, result_ticket_id = ticket_id change, score = sc,
      result_factors = fs, is_auto_validated = (sc \<ge> AUTO_VALIDATE_THRESHOLD),
      validation_rule = get_validation_rule sc fs change\<rparr>"

text \<open>
  The loop of \<^verbatim>\<open>CorrelationEngine.correlate\<close>:
  \<^verbatim>\<open>
    for change in candidates:
        score, factors = self._calculate_score(alert, change)
        if score > best_score and score >= self.MINIMUM_MATCH_THRESHOLD:
            best_score = score
            best_match = CorrelationResult(...)
  \<close>
\<close>

fun correlate_loop :: "(string \<Rightarrow> datetime option) \<Rightarrow> store \<Rightarrow> alert \<Rightarrow> change list
    \<Rightarrow> correlation_result option \<Rightarrow> real \<Rightarrow> error + correlation_result option" where
  "correlate_loop fromisoformat db alert [] best_match best_score = Inr best_match"
| "correlate_loop fromisoformat db alert (change # candidates) best_match best_score =
     (case calculate_score fromisoformat db alert change of
        Inl err \<Rightarrow> Inl err
      | Inr (sc, fs) \<Rightarrow>
          if sc > best_score \<and> sc \<ge> MINIMUM_MATCH_THRESHOLD
          then correlate_loop fromisoformat db alert candidates (Some (make_result change sc fs)) sc
          else correlate_loop fromisoformat db alert candidates best_match best_score)"

text \<open>
  \<^verbatim>\<open>CorrelationEngine.correlate\<close>: no candidates, no match; else the loop from
  \<^verbatim>\<open>best_match = None\<close>, \<^verbatim>\<open>best_score = 0\<close>.
\<close>

definition correlate ::
    "(string \<Rightarrow> datetime option) \<Rightarrow> datetime \<Rightarrow> store \<Rightarrow> alert \<Rightarrow> error + correlation_result option" where
  "correlate fromisoformat now db alert =
     (case get_candidate_changes fromisoformat now db alert of
        Inl err \<Rightarrow> Inl err
      | Inr candidates \<Rightarrow>
          if candidates = [] then Inr None
          else correlate_loop fromisoformat db alert candidates None 0)"

text \<open>The alerts and changes on whose dates \<^verbatim>\<open>_time_score\<close> raises nothing: where
  the detection time and the start parse, the end that the function works with exists
  and the three are comparable.\<close>

definition comparable_dates :: "(string \<Rightarrow> datetime option) \<Rightarrow> alert \<Rightarrow> change \<Rightarrow> bool" where
  "comparable_dates fromisoformat alert change =
     (case (parse_dt fromisoformat (detected_at alert),
            parse_dt fromisoformat (scheduled_start change)) of
        (Some detected, Some start) \<Rightarrow>
          (case window_end_of fromisoformat start (scheduled_end change) of
             Inl err \<Rightarrow> False
           | Inr end_t \<Rightarrow> comparable detected start end_t)
      | _ \<Rightarrow> True)"

subsection \<open>The store's writes\<close>

record validation =
  validation_alert_id :: int
  validation_change_id :: "int option"
  correlation_score :: real
  correlation_factors :: "factors option"
  validation_status :: string
  validated_by :: "string option"
  validated_at :: "string option"
  validation_notes :: "string option"
  auto_validation_rule :: "string option"

record audit_entry =
  audit_action :: string
  audit_table_name :: string
  audit_record_id :: int
  audit_user :: string
  audit_new_value :: string

text \<open>The tables that the engine writes: the \<^verbatim>\<open>validations\<close> rows in the order of
  their insertion, the \<^verbatim>\<open>validation_status\<close> of each \<^verbatim>\<open>alerts\<close> row by its
  \<^verbatim>\<open>id\<close>, and the \<^verbatim>\<open>audit_log\<close> rows.\<close>

record tables =
  validations :: "validation list"
  alerts :: "int \<rightharpoonup> string"
  audit_log :: "audit_entry list"

text \<open>
  The database: its committed tables, and what its next operations will do. Each
  \<^verbatim>\<open>sqlite3.connect\<close>, \<^verbatim>\<open>conn.execute\<close> and \<^verbatim>\<open>conn.commit\<close> takes the next
  entry of \<open>faults\<close>; \<open>True\<close> makes it raise. With no entries left, every operation
  succeeds.
\<close>

record database =
  committed :: tables
  faults :: "bool list"

definition next_fault :: "bool list \<Rightarrow> bool \<times> bool list" where
  "next_fault fs = (case fs of [] \<Rightarrow> (False, []) | f # rest \<Rightarrow> (f, rest))"

text \<open>\<^verbatim>\<open>conn.execute\<close> of one statement on the tables as the connection sees them.\<close>

definition execute :: "(tables \<Rightarrow> tables) \<Rightarrow> tables \<times> bool list \<Rightarrow> (error + tables) \<times> bool list" where
  "execute statement conn =
     (case conn of
        (t, fs) \<Rightarrow>
          (case next_fault fs of
             (fails, rest) \<Rightarrow> (if fails then Inl DatabaseError else Inr (statement t), rest)))"

text \<open>
  \<^verbatim>\<open>Database.connection\<close>:
  \<^verbatim>\<open>
    conn = sqlite3.connect(self.db_path)
    try:
        yield conn
        conn.commit()
    except Exception:
        conn.rollback()
        raise
    finally:
        conn.close()
  \<close>
  The body works on the tables as they are committed; what it has done is kept when the
  commit succeeds and dropped when the body or the commit raises.
\<close>

definition connection ::
    "(tables \<times> bool list \<Rightarrow> (error + 'a \<times> tables) \<times> bool list) \<Rightarrow> database
      \<Rightarrow> (error + 'a) \<times> database" where
  "connection body db =
     (case next_fault (faults db) of
        (connect_fails, fs0) \<Rightarrow>
          if connect_fails then (Inl DatabaseError, db\<lparr>faults := fs0\<rparr>)
          else (case body (committed db, fs0) of
                  (Inl e, fs1) \<Rightarrow> (Inl e, db\<lparr>faults := fs1\<rparr>)
                | (Inr (x, t), fs1) \<Rightarrow>
                    (case next_fault fs1 of
                       (commit_fails, fs2) \<Rightarrow>
                         if commit_fails then (Inl DatabaseError, db\<lparr>faults := fs2\<rparr>)
                         else (Inr x, \<lparr>committed = t, faults = fs2\<rparr>))))"

text \<open>\<^verbatim>\<open>Database.create_validation\<close>: one \<^verbatim>\<open>INSERT INTO validations\<close> in a
  connection of its own; it returns the new row's number.\<close>

definition create_validation :: "validation \<Rightarrow> database \<Rightarrow> (error + int) \<times> database" where
  "create_validation v db =
     connection
       (\<lambda>conn. case execute (\<lambda>t. t\<lparr>validations := validations t @ [v]\<rparr>) conn of
                 (Inl e, fs) \<Rightarrow> (Inl e, fs)
               | (Inr t, fs) \<Rightarrow> (Inr (int (length (validations t)), t), fs))
       db"

text \<open>\<^verbatim>\<open>Database.update_alert_status\<close>: an \<^verbatim>\<open>UPDATE alerts\<close> of the row with that
  \<^verbatim>\<open>id\<close> and an \<^verbatim>\<open>INSERT INTO audit_log\<close>, both in one connection of its own.\<close>

definition update_alert_status :: "int \<Rightarrow> string \<Rightarrow> string \<Rightarrow> database \<Rightarrow> (error + unit) \<times> database" where
  "update_alert_status alert_id status by_user db =
     connection
       (\<lambda>conn. case execute (\<lambda>t. t\<lparr>alerts := (if alert_id \<in> dom (alerts t)
                                                then (alerts t)(alert_id \<mapsto> status)
                                                else alerts t)\<rparr>) conn of
                 (Inl e, fs) \<Rightarrow> (Inl e, fs)
               | (Inr t, fs) \<Rightarrow>
                   (case execute (\<lambda>t. t\<lparr>audit_log := audit_log t @
                                          [\<lparr>audit_action = ''update_status'',
                                            audit_table_name = ''alerts'',
                                            audit_record_id = alert_id,
                                            audit_user = by_user,
                                            audit_new_value = status\<rparr>]\<rparr>) (t, fs) of
                      (Inl e, fs') \<Rightarrow> (Inl e, fs')
                    | (Inr t', fs') \<Rightarrow> (Inr ((), t'), fs')))
       db"

text \<open>What \<^verbatim>\<open>correlate_and_validate\<close> returns.\<close>

record outcome =
  matched :: bool
  outcome_ticket_id :: "string option"
  outcome_score :: real
  auto_validated :: bool
  outcome_factors :: "factors option"

text \<open>
  \<^verbatim>\<open>CorrelationEngine.correlate_and_validate\<close>:
  \<^verbatim>\<open>
    result = self.correlate(alert)
    if result:
        validation = {... 'validation_status': 'auto_validated' if result.is_auto_validated
                                               else 'pending_review', ...}
        self.db.create_validation(validation)
        if result.is_auto_validated:
            self.db.update_alert_status(alert_id, 'validated', 'SYSTEM')
        return {'matched': True, ...}
    else:
        validation = {... 'validation_status': 'pending_review', ...
                      'notes': 'No matching change ticket found'}
        self.db.create_validation(validation)
        return {'matched': False, ...}
  \<close>
  An exception of \<^verbatim>\<open>correlate\<close> or of the store leaves the function at the call
  that raised it. \<open>validated_now\<close> is the \<^verbatim>\<open>datetime.now().isoformat()\<close> of the
  validation record.
\<close>

definition correlate_and_validate ::
    "(string \<Rightarrow> datetime option) \<Rightarrow> datetime \<Rightarrow> string \<Rightarrow> store \<Rightarrow> int \<Rightarrow> alert \<Rightarrow> database
      \<Rightarrow> (error + outcome) \<times> database" where
  "correlate_and_validate fromisoformat now validated_now db alert_id alert dbs =
     (case correlate fromisoformat now db alert of
        Inl err \<Rightarrow> (Inl err, dbs)
      | Inr (Some result) \<Rightarrow>
          (let v = \<lparr>validation_alert_id = alert_id,
                    validation_change_id = Some (result_change_id result),
                    correlation_score = score result,
                    correlation_factors = Some (result_factors result),
                    validation_status = (if is_auto_validated result then ''auto_validated''
                                         else ''pending_review''),
                    validated_by = (if is_auto_validated result then Some ''SYSTEM'' else None),
                    validated_at = (if is_auto_validated result then Some validated_now else None),
                    validation_notes = None,
                    auto_validation_rule = validation_rule result\<rparr>;
               out = \<lparr>matched = True, outcome_ticket_id = Some (result_ticket_id result),
                      outcome_score = score result, auto_validated = is_auto_validated result,
                      outcome_factors = Some (result_factors result)\<rparr>
           in case create_validation v dbs of
                (Inl e, dbs1) \<Rightarrow> (Inl e, dbs1)
              | (Inr row, dbs1) \<Rightarrow>
                  if is_auto_validated result then
                    (case update_alert_status alert_id ''validated'' ''SYSTEM'' dbs1 of
                       (Inl e, dbs2) \<Rightarrow> (Inl e, dbs2)
                     | (Inr u, dbs2) \<Rightarrow> (Inr out, dbs2))
                  else (Inr out, dbs1))
      | Inr None \<Rightarrow>
          (let v = \<lparr>validation_alert_id = alert_id, validation_change_id = None,
                    correlation_score = 0, correlation_factors = None,
                    validation_status = ''pending_review'', validated_by = None,
                    validated_at = None,
                    validation_notes = Some ''No matching change ticket found'',
                    auto_validation_rule = None\<rparr>
           in case create_validation v dbs of
                (Inl e, dbs1) \<Rightarrow> (Inl e, dbs1)
              | (Inr row, dbs1) \<Rightarrow>
                  (Inr \<lparr>matched = False, outcome_ticket_id = None, outcome_score = 0,
                        auto_validated = False, outcome_factors = None\<rparr>, dbs1)))"

subsection \<open>The validation processor\<close>

text \<open>An exception of the intrusion detection export, as the dictionary that
  \<^verbatim>\<open>process_exception\<close> reads; a key that is missing is \<open>None\<close>. The key
  \<^verbatim>\<open>detected_at\<close> can be present and hold \<^verbatim>\<open>None\<close>, which is \<open>Some DtOther\<close>.\<close>

record id_exception =
  exception_type :: "string option"
  exception_detected_at :: "dt_value option"
  asset_group :: "string option"
  comment :: "string option"
  kb_numbers :: "string list option"
  patch_id :: "string option"

record processing_result =
  result_exception_type :: string
  result_detected_at :: dt_value
  result_asset_group :: string
  correlation_method :: "string option"
  is_validated :: bool
  confidence :: real
  matched_tickets :: "string list"
  result_notes :: "string list"

text \<open>The ServiceNow connector's \<^verbatim>\<open>lookup_multiple_chg\<close>: the changes found, or an
  exception.\<close>

datatype lookup_error = LookupError

type_synonym snow_connector = "string list \<Rightarrow> lookup_error + change list"

record direct_correlation =
  direct_is_validated :: bool
  direct_confidence :: real
  matched_changes :: "change list"
  direct_rule :: string

text \<open>
  \<^verbatim>\<open>ValidationProcessor._correlate_with_direct_lookup\<close>:
  \<^verbatim>\<open>
    if not self.snow or not chg_numbers: return None
    try:
        changes = self.snow.lookup_multiple_chg(chg_numbers)
        approved_changes = [c for c in changes
            if c.get('approval_status') == 'approved'
            and 'closed' in c.get('state', '').lower()]
        if approved_changes:
            return {'is_validated': True, 'confidence': 1.0,
                    'matched_changes': approved_changes, 'rule': 'direct_chg_lookup'}
    except Exception as e: logger.error(...)
    return None
  \<close>
\<close>

definition approved_and_closed :: "change \<Rightarrow> bool" where
  "approved_and_closed c \<longleftrightarrow>
     approval_status c = Some ''approved'' \<and>
     contains ''closed'' (lower (case state c of None \<Rightarrow> [] | Some s \<Rightarrow> s))"

definition correlate_with_direct_lookup :: "snow_connector option \<Rightarrow> string list \<Rightarrow> direct_correlation option" where
  "correlate_with_direct_lookup snow chg_numbers =
     (case snow of
        None \<Rightarrow> None
      | Some lookup_multiple_chg \<Rightarrow>
          if chg_numbers = [] then None
          else (case lookup_multiple_chg chg_numbers of
                  Inl e \<Rightarrow> None
                | Inr changes \<Rightarrow>
                    (let approved_changes = filter approved_and_closed changes
                     in if approved_changes \<noteq> []
                        then Some \<lparr>direct_is_validated = True, direct_confidence = 1,
                                   matched_changes = approved_changes,
                                   direct_rule = ''direct_chg_lookup''\<rparr>
                        else None)))"

text \<open>\<^verbatim>\<open>KB\d{6,7}\<close> under \<^verbatim>\<open>re.IGNORECASE\<close>: the match at the head of a text, and
  \<^verbatim>\<open>re.search\<close>, the first match in a text.\<close>

definition kb_at :: "string \<Rightarrow> string option" where
  "kb_at s =
     (if 2 \<le> length s \<and> list_all2 match_nocase ''KB'' (take 2 s)
      then map_option (\<lambda>g. take 2 s @ g) (digits_6_7 (drop 2 s))
      else None)"

fun search_kb :: "string \<Rightarrow> string option" where
  "search_kb [] = None"
| "search_kb (c # cs) = (case kb_at (c # cs) of Some m \<Rightarrow> Some m | None \<Rightarrow> search_kb cs)"

text \<open>The \<^verbatim>\<open>repr\<close> of a list of strings that hold neither quotes nor backslashes nor
  control characters, as ticket numbers do: \<^verbatim>\<open>['A', 'B']\<close>.\<close>

definition repr_list :: "string list \<Rightarrow> string" where
  "repr_list xs = ''['' @ join '', '' (map (\<lambda>x. [CHR 0x27] @ x @ [CHR 0x27]) xs) @ '']''"

text \<open>
  The identifiers that step 2 of \<^verbatim>\<open>process_exception\<close> asks the store for:
  \<^verbatim>\<open>
    kb_numbers = exception.get('kb_numbers', [])
    patch_id = exception.get('patch_id', '')
    if patch_id:
        kb_match = re.search(r'KB\d{6,7}', patch_id, re.IGNORECASE)
        if kb_match: kb_numbers.append(kb_match.group().upper())
  \<close>
\<close>

definition patch_kb_numbers :: "id_exception \<Rightarrow> string list" where
  "patch_kb_numbers exception =
     (let kbs = (case kb_numbers exception of None \<Rightarrow> [] | Some l \<Rightarrow> l)
      in case patch_id exception of
           None \<Rightarrow> kbs
         | Some p \<Rightarrow>
             if p = [] then kbs
             else (case search_kb p of None \<Rightarrow> kbs | Some m \<Rightarrow> kbs @ [upper m]))"

text \<open>
  \<^verbatim>\<open>ValidationProcessor.process_exception\<close>. Step 1 looks the ticket numbers of the
  comment up; step 2, for \<^verbatim>\<open>patches_installed\<close>, asks the store for each of the
  \<^verbatim>\<open>kb_numbers\<close>, to which the patch identifier of \<^verbatim>\<open>patch_id\<close> is appended; step 3
  is a comment in the source (\<^verbatim>\<open># Step 3: Try asset + time window correlation
  (SECONDARY PATH)\<close>, \<^verbatim>\<open># This requires additional context about which asset the
  exception is for\<close>) and no code; step 4 is the result \<^verbatim>\<open>none\<close>.

  The function returns the result and the exception: \<^verbatim>\<open>kb_numbers.append\<close> changes the
  list held by the exception where the key is present.
\<close>

definition process_exception ::
    "(string list \<Rightarrow> string list) \<Rightarrow> snow_connector option \<Rightarrow> store \<Rightarrow> id_exception
      \<Rightarrow> processing_result \<times> id_exception" where
  "process_exception set_iter snow db exception =
     (let result = \<lparr>result_exception_type =
                       (case exception_type exception of None \<Rightarrow> ''unknown'' | Some t \<Rightarrow> t),
                     result_detected_at =
                       (case exception_detected_at exception of None \<Rightarrow> DtOther | Some d \<Rightarrow> d),
                     result_asset_group = (case asset_group exception of None \<Rightarrow> [] | Some g \<Rightarrow> g),
                     correlation_method = None, is_validated = False, confidence = 0,
                     matched_tickets = [], result_notes = []\<rparr>;
          chg_numbers = extract_chg_numbers set_iter (comment exception);
          result1 = (if chg_numbers \<noteq> []
                     then result\<lparr>result_notes := result_notes result @
                                    [''CHG numbers found: '' @ repr_list chg_numbers]\<rparr>
                     else result);
          direct = (if chg_numbers \<noteq> [] \<and> snow \<noteq> None
                    then correlate_with_direct_lookup snow chg_numbers else None)
      in if (case direct of None \<Rightarrow> False | Some correlation \<Rightarrow> direct_is_validated correlation)
         then (result1\<lparr>correlation_method := Some ''direct_chg_lookup'', is_validated := True,
                       confidence := 1, matched_tickets := chg_numbers,
                       result_notes := result_notes result1 @
                                         [''Auto-validated via direct CHG lookup'']\<rparr>,
               exception)
         else if exception_type exception = Some ''patches_installed'' then
           (let kbs = patch_kb_numbers exception;
                exception1 = (case kb_numbers exception of
                                None \<Rightarrow> exception
                              | Some l \<Rightarrow> exception\<lparr>kb_numbers := Some kbs\<rparr>)
            in case find (is_kb_approved db) kbs of
                 Some kb \<Rightarrow>
                   (result1\<lparr>correlation_method := Some ''wsus_approved'', is_validated := True,
                            confidence := 1, matched_tickets := [kb],
                            result_notes := result_notes result1 @
                              [''Auto-validated: '' @ kb @ '' in WSUS approved list'']\<rparr>,
                    exception1)
               | None \<Rightarrow>
                   (result1\<lparr>correlation_method := Some ''none'', is_validated := False,
                            confidence := 0,
                            result_notes := result_notes result1 @
                              [''No matching change ticket found - manual review required'']\<rparr>,
                    exception1))
         else (result1\<lparr>correlation_method := Some ''none'', is_validated := False, confidence := 0,
                       result_notes := result_notes result1 @
                         [''No matching change ticket found - manual review required'']\<rparr>,
               exception))"

text \<open>
  The alert that \<^verbatim>\<open>BatchProcessor.process_csv_import\<close> stores for an exception:
  \<^verbatim>\<open>
    'asset_name': exc.get('asset_group', 'Unknown'),
    'asset_name_normalized': exc.get('asset_group', '').lower(),
    'change_category': exc.get('exception_type', ''),
    'change_detail': exc.get('comment', ''),
    'detected_at': exc.get('detected_at', datetime.now().isoformat()),
  \<close>
  \<open>now_iso\<close> is the text \<^verbatim>\<open>datetime.now().isoformat()\<close>.
\<close>

definition alert_of_exception :: "string \<Rightarrow> id_exception \<Rightarrow> alert" where
  "alert_of_exception now_iso exc =
     \<lparr>asset_name = Some (case asset_group exc of None \<Rightarrow> ''Unknown'' | Some g \<Rightarrow> g),
      asset_name_normalized = Some (lower (case asset_group exc of None \<Rightarrow> [] | Some g \<Rightarrow> g)),
      change_category = Some (case exception_type exc of None \<Rightarrow> [] | Some t \<Rightarrow> t),
      change_detail = Some (case comment exc of None \<Rightarrow> [] | Some c \<Rightarrow> c),
      detected_at = (case exception_detected_at exc of None \<Rightarrow> DtString now_iso | Some d \<Rightarrow> d)\<rparr>"

subsection \<open>Sample records\<close>

text \<open>A \<^verbatim>\<open>fromisoformat\<close> that accepts no text, for inputs whose dates are all
  \<^verbatim>\<open>datetime\<close> objects; the naive \<^verbatim>\<open>datetime\<close> that lies a number of hours
  after the start of the year 2000, and the aware one that shows the same fields with an
  offset of so many hours.\<close>

definition no_iso_text :: "string \<Rightarrow> datetime option" where
  "no_iso_text s = None"

definition naive_at :: "int \<Rightarrow> datetime" where
  "naive_at h = \<lparr>wall = 63082281600000000 + timedelta_hours h, utcoffset = None\<rparr>"

definition aware_at :: "int \<Rightarrow> int \<Rightarrow> datetime" where
  "aware_at h off =
     \<lparr>wall = 63082281600000000 + timedelta_hours h, utcoffset = Some (timedelta_hours off)\<rparr>"

text \<open>An alert, a change that fits it, and a store that answers every query with a given
  list of changes and has no approved patch; they serve as concrete inputs below.\<close>

definition sample_alert :: alert where
  "sample_alert =
     \<lparr>asset_name = Some ''QASASM1'', asset_name_normalized = Some ''qasasm1'',
      change_category = Some ''software_installed'',
      change_detail = Some ''Routine maintenance'',
      detected_at = DtObject (naive_at 30)\<rparr>"

definition sample_change :: change where
  "sample_change =
     \<lparr>change_id = 7, ticket_id = ''CHG0000338771'',
      change_asset_name_normalized = Some ''qasasm1'',
      change_type = Some ''software_installed'',
      scheduled_start = DtObject (naive_at 24),
      scheduled_end = DtObject (naive_at 48),
      kb_articles = Some [], approval_status = Some ''approved'',
      state = Some ''Closed Successful''\<rparr>"

definition sample_store :: "change list \<Rightarrow> store" where
  "sample_store cs = \<lparr>get_changes_in_window = (\<lambda>s e a. cs), is_kb_approved = (\<lambda>kb. False)\<rparr>"

text \<open>A second change that fits the alert as well as the first; a change of another type
  for the same asset and window; a change with no asset, no window and another type.\<close>

definition sample_change2 :: change where
  "sample_change2 = sample_change\<lparr>change_id := 8, ticket_id := ''CHG0000338772''\<rparr>"

definition sample_mid_change :: change where
  "sample_mid_change =
     sample_change\<lparr>change_id := 10, ticket_id := ''CHG0000338774'', change_type := Some ''network''\<rparr>"

definition sample_far_change :: change where
  "sample_far_change =
     \<lparr>change_id = 9, ticket_id = ''CHG0000338773'',
      change_asset_name_normalized = None, change_type = Some ''network'',
      scheduled_start = DtOther, scheduled_end = DtOther,
      kb_articles = None, approval_status = Some ''pending'', state = None\<rparr>"

text \<open>The sample alert with a detection time that carries a UTC offset, as the e-mail
  listener makes it from a \<^verbatim>\<open>Date\<close> header.\<close>

definition sample_aware_alert :: alert where
  "sample_aware_alert = sample_alert\<lparr>detected_at := DtObject (aware_at 30 0)\<rparr>"

text \<open>A database that holds alert 1 as pending, with a given course of faults; a run in which
  the update of the alert is the operation that fails, and a run with no fault.\<close>

definition sample_database :: "bool list \<Rightarrow> database" where
  "sample_database fs =
     \<lparr>committed = \<lparr>validations = [], alerts = [1 \<mapsto> ''pending''], audit_log = []\<rparr>,
      faults = fs\<rparr>"

definition sample_partial_failure :: "(error + outcome) \<times> database" where
  "sample_partial_failure =
     correlate_and_validate no_iso_text (naive_at 0) ''2000-01-01T00:00:00''
       (sample_store [sample_change]) 1 sample_alert
       (sample_database [False, False, False, False, True])"

definition sample_success :: "(error + outcome) \<times> database" where
  "sample_success =
     correlate_and_validate no_iso_text (naive_at 0) ''2000-01-01T00:00:00''
       (sample_store [sample_change]) 1 sample_alert
       (sample_database [])"

text \<open>An exception with no ticket number in its comment, from which the sample alert is
  made; the same with a ticket number; and a ServiceNow connector that knows the sample
  change.\<close>

definition sample_exception :: id_exception where
  "sample_exception =
     \<lparr>exception_type = Some ''software_installed'',
      exception_detected_at = Some (DtObject (naive_at 30)),
      asset_group = Some ''QASASM1'', comment = Some ''Routine maintenance'',
      kb_numbers = None, patch_id = None\<rparr>"

definition sample_chg_exception :: id_exception where
  "sample_chg_exception = sample_exception\<lparr>comment := Some ''Activity: CHG0000338771''\<rparr>"

definition sample_snow :: snow_connector where
  "sample_snow chg_numbers = Inr (filter (\<lambda>c. ticket_id c \<in> set chg_numbers) [sample_change])"

section \<open>Properties\<close>

text \<open>The definitions that evaluate a text function on a given text.\<close>

lemmas eval_text =
  ascii_upper_def upper_def lower_char_def lower_def lower_letters_def upper_letters_def
  is_digit_def match_nocase_def chg_at_def is_space_def split_ws_def replace_char_def tokens_def
  digits_6_7_def kb_sep_at_def kb_at_def strip_kb_prefix_def

subsection \<open>Identifier extraction\<close>

lemma unique_loop_distinct:
  "distinct unique \<Longrightarrow> set unique \<subseteq> seen \<Longrightarrow> distinct (unique_loop ms seen unique)"
  by (induction ms seen unique rule: unique_loop.induct) (auto simp: Let_def)

lemma extract_chg_numbers_from_comment_distinct:
  "distinct (extract_chg_numbers_from_comment cm)"
  by (simp add: extract_chg_numbers_from_comment_def unique_loop_distinct split: option.splits)

lemma unique_loop_set:
  "seen = set unique \<Longrightarrow> set (unique_loop ms seen unique) = set unique \<union> upper ` set ms"
  by (induction ms seen unique rule: unique_loop.induct) (auto simp: Let_def)

lemma extract_chg_numbers_from_comment_set:
  "set (extract_chg_numbers_from_comment (Some c)) = upper ` set (findall_chg c)"
  by (simp add: extract_chg_numbers_from_comment_def unique_loop_set)

lemma parse_row_chg_numbers_distinct:
  assumes "\<And>xs. mset (set_iter xs) = mset xs"
  shows "distinct (parse_row_chg_numbers set_iter cm)"
proof -
  have "mset (parse_row_chg_numbers set_iter cm) = mset (remdups (map upper (findall_chg cm)))"
    by (simp add: parse_row_chg_numbers_def assms)
  then show ?thesis
    by (metis distinct_remdups mset_eq_imp_distinct_iff)
qed

text \<open>
  C8. Extraction is claimed to give a deduplicated, order-preserving, upper-case list.
  \<^verbatim>\<open>_extract_chg_numbers\<close> of the validation processor removes the duplicates before it
  changes the case: on the comment \<^verbatim>\<open>chg0000338290 CHG0000338290\<close> the set holds two
  different strings and, in either iteration order of that set, the result holds
  \<^verbatim>\<open>CHG0000338290\<close> twice. The connector's extraction gives it once.
\<close>

theorem extract_chg_numbers_mixed_case_duplicate:
  "extract_chg_numbers id (Some ''chg0000338290 CHG0000338290'')
     = [''CHG0000338290'', ''CHG0000338290''] \<and>
   extract_chg_numbers rev (Some ''chg0000338290 CHG0000338290'')
     = [''CHG0000338290'', ''CHG0000338290''] \<and>
   extract_chg_numbers_from_comment (Some ''chg0000338290 CHG0000338290'')
     = [''CHG0000338290'']"
  by (simp add: extract_chg_numbers_def extract_chg_numbers_from_comment_def eval_text)

subsection \<open>The time factor\<close>

lemma utc_instant_wall [simp]: "utc_instant (d\<lparr>wall := w\<rparr>) = utc_instant d + (w - wall d)"
  by (simp add: utc_instant_def)

lemma same_kind_wall [simp]:
  "same_kind (a\<lparr>wall := w\<rparr>) b = same_kind a b" "same_kind a (b\<lparr>wall := w\<rparr>) = same_kind a b"
  by (simp_all add: same_kind_def)

lemma same_kind_trans: "same_kind a b \<Longrightarrow> same_kind a c \<Longrightarrow> same_kind b c"
  by (auto simp: same_kind_def)

lemma same_kind_sym: "same_kind a b = same_kind b a"
  by (auto simp: same_kind_def)

lemma buffer_nonneg: "0 \<le> timedelta_hours TIME_BUFFER_HOURS"
  by (simp add: timedelta_hours_def TIME_BUFFER_HOURS_def)

lemma window_bounds:
  assumes "timedelta_hours TIME_BUFFER_HOURS \<le> wall s" and "wall s \<le> MAX_WALL"
    and "0 \<le> wall e" and "wall e + timedelta_hours TIME_BUFFER_HOURS \<le> MAX_WALL"
  shows "dt_add s (- timedelta_hours TIME_BUFFER_HOURS) =
           Inr (s\<lparr>wall := wall s - timedelta_hours TIME_BUFFER_HOURS\<rparr>)"
    and "dt_add e (timedelta_hours TIME_BUFFER_HOURS) =
           Inr (e\<lparr>wall := wall e + timedelta_hours TIME_BUFFER_HOURS\<rparr>)"
  using assms buffer_nonneg by (simp_all add: dt_add_def)

lemma time_score_parsed:
  assumes "parse_dt f det = Some d" and "parse_dt f st = Some s"
    and "window_end_of f s en = Inr e" and "comparable d s e"
  shows "time_score f det st en =
     Inr (if utc_instant s \<le> utc_instant d \<and> utc_instant d \<le> utc_instant e then 1
          else if utc_instant s - timedelta_hours TIME_BUFFER_HOURS \<le> utc_instant d \<and>
                  utc_instant d \<le> utc_instant e + timedelta_hours TIME_BUFFER_HOURS
            then decay (hours_outside d s e)
          else 0)"
proof -
  have k: "same_kind d s" "same_kind s d" "same_kind d e" "same_kind s e"
    using assms(4) same_kind_trans [of d s e] by (auto simp: comparable_def same_kind_sym)
  have r: "timedelta_hours TIME_BUFFER_HOURS \<le> wall s" "wall s \<le> MAX_WALL" "0 \<le> wall e"
      "wall e + timedelta_hours TIME_BUFFER_HOURS \<le> MAX_WALL"
    using assms(4) by (auto simp: comparable_def)
  show ?thesis
    using assms(1-3) k buffer_nonneg
    by (auto simp: time_score_def Let_def window_bounds [OF r] dt_between_def dt_le_def
        dt_lt_def dt_sub_def hours_outside_def)
qed

lemma time_score_mixed:
  assumes "parse_dt f det = Some d" and "parse_dt f st = Some s"
    and "window_end_of f s en = Inr e" and "\<not> same_kind d s"
    and r: "timedelta_hours TIME_BUFFER_HOURS \<le> wall s" "wall s \<le> MAX_WALL"
      "0 \<le> wall e" "wall e + timedelta_hours TIME_BUFFER_HOURS \<le> MAX_WALL"
  shows "time_score f det st en = Inl TypeError"
  using assms(1-4)
  by (simp add: time_score_def Let_def window_bounds [OF r] dt_between_def dt_le_def
      same_kind_sym)

lemma hours_outside_buffer:
  "hours_outside d s e \<le> real_of_int TIME_BUFFER_HOURS \<longleftrightarrow>
     (if utc_instant d < utc_instant s
      then utc_instant s - timedelta_hours TIME_BUFFER_HOURS \<le> utc_instant d
      else if utc_instant e < utc_instant d
      then utc_instant d \<le> utc_instant e + timedelta_hours TIME_BUFFER_HOURS else True)"
proof -
  have a: "(real_of_int x \<le> real_of_int y + 86400000000) = (x \<le> y + 86400000000)" for x y :: int
  proof -
    have "real_of_int y + 86400000000 = real_of_int (y + 86400000000)" by simp
    then show ?thesis by (simp only: of_int_le_iff)
  qed
  show ?thesis
    by (simp add: hours_outside_def total_seconds_def timedelta_hours_def TIME_BUFFER_HOURS_def
        field_simps a)
qed

lemma parse_dt_object: "parse_dt f (DtObject x) = Some x"
  by (simp add: parse_dt_def)

lemma window_end_of_object: "window_end_of f s (DtObject x) = Inr x"
  by (simp add: window_end_of_def parse_dt_def)

lemma comparable_naive:
  "24 \<le> a \<Longrightarrow> a \<le> 1000 \<Longrightarrow> 0 \<le> b \<Longrightarrow> b \<le> 1000 \<Longrightarrow>
   comparable (naive_at d) (naive_at a) (naive_at b)"
  by (simp add: comparable_def same_kind_def naive_at_def timedelta_hours_def
      TIME_BUFFER_HOURS_def MAX_WALL_def)

lemma utc_instant_naive: "utc_instant (naive_at h) = 63082281600000000 + h * 3600000000"
  by (simp add: utc_instant_def naive_at_def timedelta_hours_def)

text \<open>
  C5. For a detection time, a start and an end that \<^verbatim>\<open>_time_score\<close> can compare (all
  naive or all aware, the window with its buffer inside the range of \<^verbatim>\<open>datetime\<close>),
  the time factor is 1 when the detection time lies in the window from
  \<^verbatim>\<open>scheduled_start\<close> to \<^verbatim>\<open>scheduled_end\<close>, the end 24 hours after the start
  when there is none; outside the window and within \<^verbatim>\<open>TIME_BUFFER_HOURS\<close> of it, it is
  \<^verbatim>\<open>max(0, 1 - (hours_outside / BUFFER) * 0.5)\<close>; beyond the buffer it is 0, and it is 0
  when \<^verbatim>\<open>scheduled_start\<close> does not parse. For a naive detection time and an aware
  start, or the other way round, the function raises \<^verbatim>\<open>TypeError\<close>.
\<close>

theorem time_score_cases:
  "(parse_dt f st = None \<longrightarrow> time_score f det st en = Inr 0) \<and>
   (parse_dt f en = None \<longrightarrow> window_end_of f s en = dt_add s (timedelta_hours 24)) \<and>
   (parse_dt f det = Some d \<and> parse_dt f st = Some s \<and> window_end_of f s en = Inr e \<and>
      comparable d s e \<longrightarrow>
      (utc_instant s \<le> utc_instant d \<and> utc_instant d \<le> utc_instant e \<longrightarrow>
         time_score f det st en = Inr 1) \<and>
      (\<not> (utc_instant s \<le> utc_instant d \<and> utc_instant d \<le> utc_instant e) \<and>
         utc_instant s - timedelta_hours TIME_BUFFER_HOURS \<le> utc_instant d \<and>
         utc_instant d \<le> utc_instant e + timedelta_hours TIME_BUFFER_HOURS \<longrightarrow>
         time_score f det st en =
           Inr (max 0 (1 - (hours_outside d s e / real_of_int TIME_BUFFER_HOURS) * 0.5))) \<and>
      (utc_instant d < utc_instant s - timedelta_hours TIME_BUFFER_HOURS \<or>
       utc_instant e + timedelta_hours TIME_BUFFER_HOURS < utc_instant d \<longrightarrow>
         time_score f det st en = Inr 0)) \<and>
   (parse_dt f det = Some d \<and> parse_dt f st = Some s \<and> window_end_of f s en = Inr e \<and>
      \<not> same_kind d s \<and>
      timedelta_hours TIME_BUFFER_HOURS \<le> wall s \<and> wall s \<le> MAX_WALL \<and>
      0 \<le> wall e \<and> wall e + timedelta_hours TIME_BUFFER_HOURS \<le> MAX_WALL \<longrightarrow>
      time_score f det st en = Inl TypeError)"
proof -
  have none: "parse_dt f st = None \<longrightarrow> time_score f det st en = Inr 0"
    by (simp add: time_score_def split: option.splits)
  have dflt: "parse_dt f en = None \<longrightarrow> window_end_of f s en = dt_add s (timedelta_hours 24)"
    by (simp add: window_end_of_def)
  have some: "time_score f det st en =
        Inr (if utc_instant s \<le> utc_instant d \<and> utc_instant d \<le> utc_instant e then 1
         else if utc_instant s - timedelta_hours TIME_BUFFER_HOURS \<le> utc_instant d \<and>
                 utc_instant d \<le> utc_instant e + timedelta_hours TIME_BUFFER_HOURS
           then max 0 (1 - (hours_outside d s e / real_of_int TIME_BUFFER_HOURS) * 0.5)
         else 0)"
    if "parse_dt f det = Some d" "parse_dt f st = Some s" "window_end_of f s en = Inr e"
      "comparable d s e"
    using time_score_parsed [OF that] by (simp add: decay_def)
  have mixed: "parse_dt f det = Some d \<and> parse_dt f st = Some s \<and> window_end_of f s en = Inr e \<and>
      \<not> same_kind d s \<and>
      timedelta_hours TIME_BUFFER_HOURS \<le> wall s \<and> wall s \<le> MAX_WALL \<and>
      0 \<le> wall e \<and> wall e + timedelta_hours TIME_BUFFER_HOURS \<le> MAX_WALL \<longrightarrow>
      time_score f det st en = Inl TypeError"
    using time_score_mixed [of f det d st s en e] by blast
  show ?thesis
    using none dflt some mixed buffer_nonneg by auto
qed

theorem time_score_cases_witness:
  "time_score no_iso_text (DtObject (naive_at 0)) DtOther DtOther = Inr 0 \<and>
   time_score no_iso_text (DtObject (naive_at 30)) (DtObject (naive_at 24)) DtOther = Inr 1 \<and>
   time_score no_iso_text (DtObject (naive_at 12)) (DtObject (naive_at 24))
       (DtObject (naive_at 26)) = Inr (3 / 4) \<and>
   time_score no_iso_text (DtObject (naive_at 51)) (DtObject (naive_at 24))
       (DtObject (naive_at 26)) = Inr 0 \<and>
   time_score no_iso_text (DtObject (aware_at 30 0)) (DtObject (naive_at 24))
       (DtObject (naive_at 48)) = Inl TypeError"
proof -
  have a: "time_score no_iso_text (DtObject (naive_at 0)) DtOther DtOther = Inr 0"
    using time_score_cases [where f = no_iso_text and st = DtOther
        and det = "DtObject (naive_at 0)" and en = DtOther]
    by (simp add: parse_dt_def)
  have w: "window_end_of no_iso_text (naive_at 24) DtOther = Inr (naive_at 48)"
    by (simp add: window_end_of_def parse_dt_def dt_add_def naive_at_def timedelta_hours_def
        MAX_WALL_def)
  have b: "time_score no_iso_text (DtObject (naive_at 30)) (DtObject (naive_at 24)) DtOther = Inr 1"
    using time_score_cases [where f = no_iso_text and st = "DtObject (naive_at 24)"
        and det = "DtObject (naive_at 30)" and en = DtOther
        and d = "naive_at 30" and s = "naive_at 24" and e = "naive_at 48"] w
    by (simp add: parse_dt_object comparable_naive utc_instant_naive)
  have c: "time_score no_iso_text (DtObject (naive_at 12)) (DtObject (naive_at 24))
       (DtObject (naive_at 26)) = Inr (3 / 4)"
    using time_score_cases [where f = no_iso_text and st = "DtObject (naive_at 24)"
        and det = "DtObject (naive_at 12)" and en = "DtObject (naive_at 26)"
        and d = "naive_at 12" and s = "naive_at 24" and e = "naive_at 26"]
    by (simp add: parse_dt_object window_end_of_object comparable_naive utc_instant_naive
        timedelta_hours_def hours_outside_def total_seconds_def TIME_BUFFER_HOURS_def)
  have d: "time_score no_iso_text (DtObject (naive_at 51)) (DtObject (naive_at 24))
       (DtObject (naive_at 26)) = Inr 0"
    using time_score_cases [where f = no_iso_text and st = "DtObject (naive_at 24)"
        and det = "DtObject (naive_at 51)" and en = "DtObject (naive_at 26)"
        and d = "naive_at 51" and s = "naive_at 24" and e = "naive_at 26"]
    by (simp add: parse_dt_object window_end_of_object comparable_naive utc_instant_naive
        timedelta_hours_def TIME_BUFFER_HOURS_def)
  have e: "time_score no_iso_text (DtObject (aware_at 30 0)) (DtObject (naive_at 24))
       (DtObject (naive_at 48)) = Inl TypeError"
    using time_score_cases [where f = no_iso_text and st = "DtObject (naive_at 24)"
        and det = "DtObject (aware_at 30 0)" and en = "DtObject (naive_at 48)"
        and d = "aware_at 30 0" and s = "naive_at 24" and e = "naive_at 48"]
    by (simp add: parse_dt_object window_end_of_object same_kind_def naive_at_def aware_at_def
        timedelta_hours_def TIME_BUFFER_HOURS_def MAX_WALL_def)
  show ?thesis using a b c d e by simp
qed

text \<open>
  C6, as stated: the factor is claimed to be 0 for every detection time whose distance
  outside the window is at least \<^verbatim>\<open>TIME_BUFFER_HOURS\<close>. At a distance of exactly
  \<^verbatim>\<open>TIME_BUFFER_HOURS\<close> the detection time still lies in the buffer zone, whose test is
  inclusive, and the decay has reached one half only.
\<close>

theorem time_score_at_buffer_boundary:
  "hours_outside (naive_at 0) (naive_at 24) (naive_at 48) \<ge> real_of_int TIME_BUFFER_HOURS \<and>
   time_score no_iso_text (DtObject (naive_at 0)) (DtObject (naive_at 24)) (DtObject (naive_at 48))
     = Inr (1 / 2)"
  by (simp add: time_score_def window_end_of_def parse_dt_def hours_outside_def total_seconds_def
      dt_add_def dt_between_def dt_le_def dt_lt_def dt_sub_def same_kind_def utc_instant_def
      decay_def naive_at_def timedelta_hours_def TIME_BUFFER_HOURS_def MAX_WALL_def)

text \<open>
  C6, amended. For a window with \<open>start \<le> end\<close> and detection times that
  \<^verbatim>\<open>_time_score\<close> can compare with it: the factor is 1 for a detection time inside the
  window; it does not increase as the distance outside the window grows; it is 0 for
  every detection time whose distance outside the window is greater than
  \<^verbatim>\<open>TIME_BUFFER_HOURS\<close>, and one half at exactly that distance.
\<close>

theorem time_score_monotone:
  assumes s: "parse_dt f st = Some s"
    and e: "window_end_of f s en = Inr e"
    and se: "utc_instant s \<le> utc_instant e"
    and d1: "parse_dt f det1 = Some d1" and c1: "comparable d1 s e"
    and d2: "parse_dt f det2 = Some d2" and c2: "comparable d2 s e"
  shows "(utc_instant s \<le> utc_instant d1 \<and> utc_instant d1 \<le> utc_instant e \<longrightarrow>
            time_score f det1 st en = Inr 1) \<and>
         (hours_outside d1 s e \<le> hours_outside d2 s e \<longrightarrow>
            (\<exists>x1 x2. time_score f det1 st en = Inr x1 \<and> time_score f det2 st en = Inr x2 \<and>
                      x2 \<le> x1)) \<and>
         (real_of_int TIME_BUFFER_HOURS < hours_outside d1 s e \<longrightarrow>
            time_score f det1 st en = Inr 0) \<and>
         (hours_outside d1 s e = real_of_int TIME_BUFFER_HOURS \<longrightarrow>
            time_score f det1 st en = Inr (1 / 2))"
proof -
  define B where "B = real_of_int TIME_BUFFER_HOURS"
  define g where "g h = (if h = 0 then 1 else if h \<le> B then max 0 (1 - (h / B) * 0.5) else 0)"
    for h :: real
  have Bpos: "0 < B" by (simp add: B_def TIME_BUFFER_HOURS_def)
  have nonneg: "0 \<le> hours_outside d s e" for d
    by (simp add: hours_outside_def total_seconds_def)
  have zero: "hours_outside d s e = 0 \<longleftrightarrow> utc_instant s \<le> utc_instant d \<and> utc_instant d \<le> utc_instant e" for d
    using se by (auto simp: hours_outside_def total_seconds_def)
  have score: "time_score f det st en = Inr (g (hours_outside d s e))"
    if "parse_dt f det = Some d" "comparable d s e" for det d
  proof -
    have "time_score f det st en =
        Inr (if utc_instant s \<le> utc_instant d \<and> utc_instant d \<le> utc_instant e then 1
         else if utc_instant s - timedelta_hours TIME_BUFFER_HOURS \<le> utc_instant d \<and>
                 utc_instant d \<le> utc_instant e + timedelta_hours TIME_BUFFER_HOURS
           then max 0 (1 - (hours_outside d s e / B) * 0.5)
         else 0)"
      using time_score_parsed [OF that(1) s e that(2)] by (simp add: decay_def B_def)
    also have "\<dots> = Inr (g (hours_outside d s e))"
      using se hours_outside_buffer [of d s e] zero [of d]
      by (auto simp: g_def B_def)
    finally show ?thesis .
  qed
  have mono: "g h2 \<le> g h1" if "0 \<le> h1" "h1 \<le> h2" for h1 h2
    using that Bpos by (auto simp: g_def max_def field_simps)
  have beyond: "g h = 0" if "B < h" for h
    using that Bpos by (auto simp: g_def)
  have at: "g B = 1 / 2"
    using Bpos by (simp add: g_def)
  have inside: "g 0 = 1"
    by (simp add: g_def)
  have p1: "utc_instant s \<le> utc_instant d1 \<and> utc_instant d1 \<le> utc_instant e \<longrightarrow>
      time_score f det1 st en = Inr 1"
    using score [OF d1 c1] zero [of d1] inside by auto
  have p2: "hours_outside d1 s e \<le> hours_outside d2 s e \<longrightarrow>
      (\<exists>x1 x2. time_score f det1 st en = Inr x1 \<and> time_score f det2 st en = Inr x2 \<and> x2 \<le> x1)"
    using score [OF d1 c1] score [OF d2 c2] mono [OF nonneg [of d1]] by simp
  have p3: "real_of_int TIME_BUFFER_HOURS < hours_outside d1 s e \<longrightarrow>
      time_score f det1 st en = Inr 0"
    using score [OF d1 c1] beyond unfolding B_def by simp
  have p4: "hours_outside d1 s e = real_of_int TIME_BUFFER_HOURS \<longrightarrow>
      time_score f det1 st en = Inr (1 / 2)"
    using score [OF d1 c1] at unfolding B_def by simp
  show ?thesis
    using p1 p2 p3 p4 by blast
qed

theorem time_score_monotone_witness:
  "time_score no_iso_text (DtObject (naive_at 30)) (DtObject (naive_at 24))
       (DtObject (naive_at 48)) = Inr 1 \<and>
   (\<exists>x1 x2. time_score no_iso_text (DtObject (naive_at 30)) (DtObject (naive_at 24))
               (DtObject (naive_at 48)) = Inr x1 \<and>
             time_score no_iso_text (DtObject (naive_at 12)) (DtObject (naive_at 24))
               (DtObject (naive_at 48)) = Inr x2 \<and> x2 \<le> x1) \<and>
   time_score no_iso_text (DtObject (naive_at 73)) (DtObject (naive_at 24))
       (DtObject (naive_at 48)) = Inr 0 \<and>
   time_score no_iso_text (DtObject (naive_at 72)) (DtObject (naive_at 24))
       (DtObject (naive_at 48)) = Inr (1 / 2)"
proof -
  have a: "time_score no_iso_text (DtObject (naive_at 30)) (DtObject (naive_at 24))
       (DtObject (naive_at 48)) = Inr 1"
    using time_score_monotone [where f = no_iso_text and st = "DtObject (naive_at 24)"
        and en = "DtObject (naive_at 48)" and s = "naive_at 24" and e = "naive_at 48"
        and ?det1.0 = "DtObject (naive_at 30)" and ?d1.0 = "naive_at 30"
        and ?det2.0 = "DtObject (naive_at 30)" and ?d2.0 = "naive_at 30"]
    by (simp add: parse_dt_object window_end_of_object comparable_naive utc_instant_naive)
  have b: "\<exists>x1 x2. time_score no_iso_text (DtObject (naive_at 30)) (DtObject (naive_at 24))
               (DtObject (naive_at 48)) = Inr x1 \<and>
             time_score no_iso_text (DtObject (naive_at 12)) (DtObject (naive_at 24))
               (DtObject (naive_at 48)) = Inr x2 \<and> x2 \<le> x1"
    using time_score_monotone [where f = no_iso_text and st = "DtObject (naive_at 24)"
        and en = "DtObject (naive_at 48)" and s = "naive_at 24" and e = "naive_at 48"
        and ?det1.0 = "DtObject (naive_at 30)" and ?d1.0 = "naive_at 30"
        and ?det2.0 = "DtObject (naive_at 12)" and ?d2.0 = "naive_at 12"]
    by (auto simp add: parse_dt_object window_end_of_object comparable_naive utc_instant_naive
        hours_outside_def total_seconds_def)
  have c: "time_score no_iso_text (DtObject (naive_at 73)) (DtObject (naive_at 24))
       (DtObject (naive_at 48)) = Inr 0"
    using time_score_monotone [where f = no_iso_text and st = "DtObject (naive_at 24)"
        and en = "DtObject (naive_at 48)" and s = "naive_at 24" and e = "naive_at 48"
        and ?det1.0 = "DtObject (naive_at 73)" and ?d1.0 = "naive_at 73"
        and ?det2.0 = "DtObject (naive_at 73)" and ?d2.0 = "naive_at 73"]
    by (simp add: parse_dt_object window_end_of_object comparable_naive utc_instant_naive
        hours_outside_def total_seconds_def TIME_BUFFER_HOURS_def)
  have d: "time_score no_iso_text (DtObject (naive_at 72)) (DtObject (naive_at 24))
       (DtObject (naive_at 48)) = Inr (1 / 2)"
    using time_score_monotone [where f = no_iso_text and st = "DtObject (naive_at 24)"
        and en = "DtObject (naive_at 48)" and s = "naive_at 24" and e = "naive_at 48"
        and ?det1.0 = "DtObject (naive_at 72)" and ?d1.0 = "naive_at 72"
        and ?det2.0 = "DtObject (naive_at 72)" and ?d2.0 = "naive_at 72"]
    by (simp add: parse_dt_object window_end_of_object comparable_naive utc_instant_naive
        hours_outside_def total_seconds_def TIME_BUFFER_HOURS_def)
  show ?thesis using a b c d by simp
qed

subsection \<open>The factors and the weighted total\<close>

lemma matching_size_le: "matching_size pop a b \<le> min (length a) (length b)"
proof (induction pop a b rule: matching_size.induct)
  case (1 pop a b)
  obtain i j k where m: "find_longest_match pop a b = (i, j, k)"
    by (cases "find_longest_match pop a b") auto
  have bounds: "i + k \<le> length a" "j + k \<le> length b"
    using find_longest_match_bounds [OF m] by simp_all
  show ?case
  proof (cases "k = 0")
    case True
    then show ?thesis
      using m by (subst matching_size.simps) simp
  next
    case False
    define l where "l = (if 0 < i \<and> 0 < j then matching_size pop (take i a) (take j b) else 0)"
    define r where "r = (if i + k < length a \<and> j + k < length b
                         then matching_size pop (drop (i + k) a) (drop (j + k) b) else 0)"
    have l: "l \<le> min i j"
      using "1.IH"(1) [of i "(j, k)" j k] m False bounds by (auto simp: l_def)
    have r: "r \<le> min (length a - (i + k)) (length b - (j + k))"
      using "1.IH"(2) [of i "(j, k)" j k] m False by (auto simp: r_def)
    have "matching_size pop a b = k + l + r"
      using m False by (subst matching_size.simps) (simp add: l_def r_def)
    then show ?thesis
      using l r bounds by linarith
  qed
qed

lemma ratio_bounds: "0 \<le> ratio a b \<and> ratio a b \<le> 1"
proof (cases "length a + length b = 0")
  case True
  then show ?thesis by (simp add: ratio_def)
next
  case False
  define m where "m = real (matching_size (is_popular b) a b)"
  define t where "t = real (length a + length b)"
  have "2 * matching_size (is_popular b) a b \<le> length a + length b"
    using matching_size_le [of "is_popular b" a b] by simp
  then have le: "2 * m \<le> t"
    unfolding m_def t_def by (metis of_nat_le_iff of_nat_mult of_nat_numeral)
  have pos: "0 < t"
    using False unfolding t_def by (simp only: of_nat_0_less_iff)
  have nonneg: "0 \<le> m"
    by (simp add: m_def)
  have "ratio a b = 2 * m / t"
    using False by (simp add: ratio_def Let_def m_def t_def)
  moreover have "0 \<le> 2 * m / t"
    using nonneg pos by simp
  moreover have "2 * m / t \<le> 1"
    using le pos by (simp add: divide_le_eq_1_pos)
  ultimately show ?thesis by simp
qed

lemma asset_similarity_bounds: "0 \<le> asset_similarity x y \<and> asset_similarity x y \<le> 1"
proof -
  have jac: "0 \<le> real (card (A \<inter> B)) / real (card (A \<union> B)) \<and>
             real (card (A \<inter> B)) / real (card (A \<union> B)) \<le> 1"
    if "finite A" "finite B" for A B :: "string set"
  proof -
    have "card (A \<inter> B) \<le> card (A \<union> B)"
      using that by (intro card_mono) auto
    then have le: "real (card (A \<inter> B)) \<le> real (card (A \<union> B))"
      by simp
    show ?thesis
    proof (cases "card (A \<union> B) = 0")
      case True
      then show ?thesis by simp
    next
      case False
      then have "0 < real (card (A \<union> B))" by simp
      then show ?thesis using le by (simp add: divide_le_eq_1_pos)
    qed
  qed
  have fin: "finite (tokens s)" for s
    by (simp add: tokens_def)
  show ?thesis
    using ratio_bounds jac [OF fin fin]
    by (auto simp: asset_similarity_def Let_def max_def split: option.splits)
qed

lemma time_score_bounds: "time_score f det st en = Inr x \<Longrightarrow> 0 \<le> x \<and> x \<le> 1"
  by (auto simp: time_score_def Let_def decay_def total_seconds_def TIME_BUFFER_HOURS_def max_def
      dt_between_def dt_le_def dt_lt_def dt_sub_def
      split: option.splits sum.splits if_splits)

lemma time_score_returns:
  "comparable_dates f alert change \<Longrightarrow>
   \<exists>x. time_score f (detected_at alert) (scheduled_start change) (scheduled_end change) = Inr x"
proof (cases "parse_dt f (detected_at alert)")
  case None
  then show ?thesis by (simp add: time_score_def)
next
  case d: (Some d)
  assume c: "comparable_dates f alert change"
  show ?thesis
  proof (cases "parse_dt f (scheduled_start change)")
    case None
    then show ?thesis using d by (simp add: time_score_def)
  next
    case s: (Some s)
    from c d s obtain e where e: "window_end_of f s (scheduled_end change) = Inr e"
        and ce: "comparable d s e"
      by (auto simp: comparable_dates_def split: sum.splits)
    from time_score_parsed [OF d s e ce] show ?thesis by simp
  qed
qed

lemma type_match_bounds: "0 \<le> type_match x y \<and> type_match x y \<le> 1"
  by (auto simp: type_match_def Let_def split: option.splits)

lemma kb_match_bounds: "0 \<le> kb_match appr x y \<and> kb_match appr x y \<le> 1"
  by (simp add: kb_match_def Let_def split: option.splits)

lemma calculate_score_Inr:
  "calculate_score f db alert change = Inr (tot, fs) \<longleftrightarrow>
     time_score f (detected_at alert) (scheduled_start change) (scheduled_end change)
       = Inr (factor_time fs) \<and>
     factor_asset fs = asset_similarity (asset_name_normalized alert)
                         (change_asset_name_normalized change) \<and>
     factor_type fs = type_match (change_category alert) (change_type change) \<and>
     factor_kb fs = kb_match (is_kb_approved db) (change_detail alert) (kb_articles change) \<and>
     tot = 0.40 * factor_asset fs + 0.30 * factor_time fs + 0.20 * factor_type fs
             + 0.10 * factor_kb fs"
  by (cases fs) (auto simp: calculate_score_def WEIGHTS_def Let_def split: sum.splits)

lemma calculate_score_Inl:
  "calculate_score f db alert change = Inl err \<longleftrightarrow>
     time_score f (detected_at alert) (scheduled_start change) (scheduled_end change) = Inl err"
  by (auto simp: calculate_score_def Let_def split: sum.splits)

text \<open>
  C4. For every alert and change record whose dates \<^verbatim>\<open>_time_score\<close> can compare,
  \<^verbatim>\<open>_calculate_score\<close> returns. What it returns is the four factor scores (asset, time,
  type, kb), each in the interval from 0 to 1, and the total
  0.40 asset + 0.30 time + 0.20 type + 0.10 kb, which lies in the same interval. Where it
  does not return, it raises what \<^verbatim>\<open>_time_score\<close> raises, the \<^verbatim>\<open>TypeError\<close> of
  comparing a naive with an aware date or the \<^verbatim>\<open>OverflowError\<close> of a window at the
  end of the range of dates.
\<close>

theorem calculate_score_bounds:
  "(comparable_dates f alert change \<longrightarrow>
      (\<exists>tot fs. calculate_score f db alert change = Inr (tot, fs))) \<and>
   (calculate_score f db alert change = Inr (tot, fs) \<longrightarrow>
      factor_asset fs = asset_similarity (asset_name_normalized alert)
                          (change_asset_name_normalized change) \<and>
      time_score f (detected_at alert) (scheduled_start change) (scheduled_end change)
        = Inr (factor_time fs) \<and>
      factor_type fs = type_match (change_category alert) (change_type change) \<and>
      factor_kb fs = kb_match (is_kb_approved db) (change_detail alert) (kb_articles change) \<and>
      (0 \<le> factor_asset fs \<and> factor_asset fs \<le> 1) \<and>
      (0 \<le> factor_time fs \<and> factor_time fs \<le> 1) \<and>
      (0 \<le> factor_type fs \<and> factor_type fs \<le> 1) \<and>
      (0 \<le> factor_kb fs \<and> factor_kb fs \<le> 1) \<and>
      tot = 0.40 * factor_asset fs + 0.30 * factor_time fs + 0.20 * factor_type fs
                + 0.10 * factor_kb fs \<and>
      0 \<le> tot \<and> tot \<le> 1) \<and>
   (calculate_score f db alert change = Inl err \<longrightarrow>
      time_score f (detected_at alert) (scheduled_start change) (scheduled_end change) = Inl err \<and>
      \<not> comparable_dates f alert change)"
proof -
  have ret: "\<exists>tot fs. calculate_score f db alert change = Inr (tot, fs)"
    if "comparable_dates f alert change"
  proof -
    from time_score_returns [OF that] obtain x where
      "time_score f (detected_at alert) (scheduled_start change) (scheduled_end change) = Inr x"
      by blast
    then show ?thesis by (simp add: calculate_score_def Let_def)
  qed
  have val: "factor_asset fs = asset_similarity (asset_name_normalized alert)
                          (change_asset_name_normalized change) \<and>
      time_score f (detected_at alert) (scheduled_start change) (scheduled_end change)
        = Inr (factor_time fs) \<and>
      factor_type fs = type_match (change_category alert) (change_type change) \<and>
      factor_kb fs = kb_match (is_kb_approved db) (change_detail alert) (kb_articles change) \<and>
      (0 \<le> factor_asset fs \<and> factor_asset fs \<le> 1) \<and>
      (0 \<le> factor_time fs \<and> factor_time fs \<le> 1) \<and>
      (0 \<le> factor_type fs \<and> factor_type fs \<le> 1) \<and>
      (0 \<le> factor_kb fs \<and> factor_kb fs \<le> 1) \<and>
      tot = 0.40 * factor_asset fs + 0.30 * factor_time fs + 0.20 * factor_type fs
                + 0.10 * factor_kb fs \<and>
      0 \<le> tot \<and> tot \<le> 1"
    if c: "calculate_score f db alert change = Inr (tot, fs)"
  proof -
    define a t ty k where "a = factor_asset fs" and "t = factor_time fs"
      and "ty = factor_type fs" and "k = factor_kb fs"
    note eqs = c [unfolded calculate_score_Inr]
    have b: "0 \<le> a" "a \<le> 1" "0 \<le> t" "t \<le> 1" "0 \<le> ty" "ty \<le> 1" "0 \<le> k" "k \<le> 1"
      using eqs asset_similarity_bounds time_score_bounds [of f "detected_at alert"
          "scheduled_start change" "scheduled_end change" t] type_match_bounds kb_match_bounds
      by (simp_all add: a_def t_def ty_def k_def)
    have tot: "tot = 0.40 * a + 0.30 * t + 0.20 * ty + 0.10 * k"
      using eqs by (simp add: a_def t_def ty_def k_def)
    have "0 \<le> 0.40 * a + 0.30 * t + 0.20 * ty + 0.10 * k"
      using b by simp
    moreover have "0.40 * a + 0.30 * t + 0.20 * ty + 0.10 * k \<le> 1"
      using b by simp
    ultimately have "0 \<le> tot \<and> tot \<le> 1"
      using tot by simp
    then show ?thesis
      using eqs b by (simp add: a_def t_def ty_def k_def)
  qed
  have err: "time_score f (detected_at alert) (scheduled_start change) (scheduled_end change) = Inl err \<and>
      \<not> comparable_dates f alert change"
    if c: "calculate_score f db alert change = Inl err"
    using c ret by (auto simp: calculate_score_Inl calculate_score_def split: sum.splits)
  show ?thesis
    using ret val err by blast
qed

lemma sample_comparable: "comparable_dates no_iso_text sample_alert sample_change"
  by (simp add: comparable_dates_def sample_alert_def sample_change_def parse_dt_object
      window_end_of_object comparable_naive)

lemma sample_time:
  "time_score no_iso_text (DtObject (naive_at 30)) (DtObject (naive_at 24)) (DtObject (naive_at 48))
     = Inr 1"
  using time_score_parsed [of no_iso_text "DtObject (naive_at 30)" "naive_at 30"
      "DtObject (naive_at 24)" "naive_at 24" "DtObject (naive_at 48)" "naive_at 48"]
  by (simp add: parse_dt_object window_end_of_object comparable_naive utc_instant_naive)

lemma sample_score:
  "calculate_score no_iso_text (sample_store cs) sample_alert sample_change =
     Inr (95 / 100, \<lparr>factor_asset = 1, factor_time = 1, factor_type = 1, factor_kb = 1 / 2\<rparr>)"
  by (simp add: calculate_score_def sample_alert_def sample_change_def sample_store_def
      sample_time asset_similarity_def type_match_def kb_match_def WEIGHTS_def eval_text)

theorem calculate_score_bounds_witness:
  "calculate_score no_iso_text (sample_store []) sample_alert sample_change =
     Inr (95 / 100, \<lparr>factor_asset = 1, factor_time = 1, factor_type = 1, factor_kb = 1 / 2\<rparr>) \<and>
   (95 / 100 :: real) = 0.40 * 1 + 0.30 * 1 + 0.20 * 1 + 0.10 * (1 / 2) \<and>
   (95 / 100 :: real) \<le> 1"
  using calculate_score_bounds [of no_iso_text sample_alert sample_change "sample_store []"
      "95 / 100" "\<lparr>factor_asset = 1, factor_time = 1, factor_type = 1, factor_kb = 1 / 2\<rparr>"]
    sample_comparable sample_score [of "[]"]
  by simp

lemma sample_aware_score:
  "calculate_score no_iso_text (sample_store cs) sample_aware_alert sample_change = Inl TypeError"
proof -
  have "time_score no_iso_text (DtObject (aware_at 30 0)) (DtObject (naive_at 24))
      (DtObject (naive_at 48)) = Inl TypeError"
    using time_score_mixed [of no_iso_text "DtObject (aware_at 30 0)" "aware_at 30 0"
        "DtObject (naive_at 24)" "naive_at 24" "DtObject (naive_at 48)" "naive_at 48"]
    by (simp add: parse_dt_object window_end_of_object same_kind_def naive_at_def aware_at_def
        timedelta_hours_def TIME_BUFFER_HOURS_def MAX_WALL_def)
  then show ?thesis
    by (simp add: calculate_score_def sample_aware_alert_def sample_alert_def sample_change_def)
qed

subsection \<open>Symmetry of the asset factor\<close>

text \<open>
  C7, as stated: the asset factor is claimed to be the same for both orders of any two
  names. \<^verbatim>\<open>SequenceMatcher.ratio\<close> depends on the order of its arguments: for
  \<^verbatim>\<open>tide\<close> and \<^verbatim>\<open>diet\<close>, which have no token in common and of which neither
  contains the other, the factor is 0.25 in one order and 0.5 in the other.
\<close>

theorem asset_similarity_not_symmetric:
  "asset_similarity (Some ''tide'') (Some ''diet'') = 1 / 4 \<and>
   asset_similarity (Some ''diet'') (Some ''tide'') = 1 / 2"
  by (simp add: asset_similarity_def ratio_def matching_size.simps find_longest_match_def
      lm_row_def is_popular_def eval_text)

text \<open>
  C7, amended. The asset factor is the same for both orders of two names when one of
  them is empty, when they are equal, when one contains the other, and whenever
  \<^verbatim>\<open>SequenceMatcher.ratio\<close> gives the same value for both orders.
\<close>

theorem asset_similarity_symmetric_if_ratio:
  assumes "a = [] \<or> b = [] \<or> a = b \<or> contains a b \<or> contains b a \<or> ratio a b = ratio b a"
  shows "asset_similarity (Some a) (Some b) = asset_similarity (Some b) (Some a)"
proof -
  have j: "real (card (tokens a \<inter> tokens b)) / real (card (tokens a \<union> tokens b)) =
           real (card (tokens b \<inter> tokens a)) / real (card (tokens b \<union> tokens a))"
    by (simp add: Int_commute Un_commute)
  show ?thesis
    using assms j by (auto simp: asset_similarity_def Let_def)
qed

theorem asset_similarity_symmetric_if_ratio_witness:
  "asset_similarity (Some ''srv-a'') (Some ''srv-b'') = 4 / 5 \<and>
   asset_similarity (Some ''srv-b'') (Some ''srv-a'') = 4 / 5"
proof -
  have r: "ratio ''srv-a'' ''srv-b'' = 4 / 5" "ratio ''srv-b'' ''srv-a'' = 4 / 5"
    by (simp_all add: ratio_def matching_size.simps find_longest_match_def lm_row_def is_popular_def)
  have v: "asset_similarity (Some ''srv-a'') (Some ''srv-b'') = 4 / 5"
    by (simp add: asset_similarity_def r eval_text card_insert_if)
  show ?thesis
    using asset_similarity_symmetric_if_ratio [of "''srv-a''" "''srv-b''"] r v by simp
qed

lemma sample_score2:
  "calculate_score no_iso_text (sample_store cs) sample_alert sample_change2 =
     Inr (95 / 100, \<lparr>factor_asset = 1, factor_time = 1, factor_type = 1, factor_kb = 1 / 2\<rparr>)"
  by (simp add: calculate_score_def sample_alert_def sample_change_def sample_change2_def
      sample_store_def sample_time asset_similarity_def type_match_def kb_match_def WEIGHTS_def
      eval_text)

lemma sample_mid_score:
  "calculate_score no_iso_text (sample_store cs) sample_alert sample_mid_change =
     Inr (81 / 100, \<lparr>factor_asset = 1, factor_time = 1, factor_type = 3 / 10, factor_kb = 1 / 2\<rparr>)"
  by (simp add: calculate_score_def sample_alert_def sample_change_def sample_mid_change_def
      sample_store_def sample_time asset_similarity_def type_match_def kb_match_def WEIGHTS_def
      CHANGE_TYPE_MAPPINGS_def eval_text)

lemma sample_far_score:
  "calculate_score no_iso_text (sample_store cs) sample_alert sample_far_change =
     Inr (11 / 100, \<lparr>factor_asset = 0, factor_time = 0, factor_type = 3 / 10, factor_kb = 1 / 2\<rparr>)"
  by (simp add: calculate_score_def sample_alert_def sample_far_change_def
      sample_store_def asset_similarity_def time_score_def parse_dt_def
      type_match_def kb_match_def WEIGHTS_def CHANGE_TYPE_MAPPINGS_def eval_text)

lemma sample_candidates:
  "get_candidate_changes no_iso_text (naive_at 0) (sample_store cs) sample_alert = Inr cs"
  "get_candidate_changes no_iso_text (naive_at 0) (sample_store cs) sample_aware_alert = Inr cs"
  by (simp_all add: get_candidate_changes_def sample_store_def sample_alert_def
      sample_aware_alert_def dt_add_def naive_at_def aware_at_def timedelta_hours_def
      TIME_BUFFER_HOURS_def MAX_WALL_def)

subsection \<open>Selection\<close>

lemma correlate_loop_None:
  "correlate_loop f db alert cs bm bs = Inr None \<longleftrightarrow>
     bm = None \<and>
     (\<forall>c \<in> set cs. \<exists>sc fs. calculate_score f db alert c = Inr (sc, fs) \<and>
                        \<not> (bs < sc \<and> MINIMUM_MATCH_THRESHOLD \<le> sc))"
proof (induction cs arbitrary: bm bs)
  case Nil
  then show ?case by simp
next
  case (Cons c cs)
  show ?case
  proof (cases "calculate_score f db alert c")
    case (Inl e)
    then show ?thesis by simp
  next
    case (Inr p)
    obtain sc fs where p: "p = (sc, fs)" by (cases p) auto
    show ?thesis
    proof (cases "bs < sc \<and> MINIMUM_MATCH_THRESHOLD \<le> sc")
      case True
      then show ?thesis using Inr p Cons.IH [of "Some (make_result c sc fs)" sc] by simp
    next
      case False
      then show ?thesis using Inr p Cons.IH [of bm bs] by auto
    qed
  qed
qed

lemma correlate_loop_Some:
  assumes "correlate_loop f db alert cs bm bs = Inr (Some r)"
  shows "(bm = Some r \<and>
          (\<forall>c \<in> set cs. \<exists>sc fs. calculate_score f db alert c = Inr (sc, fs) \<and>
                             \<not> (bs < sc \<and> MINIMUM_MATCH_THRESHOLD \<le> sc))) \<or>
         (\<exists>pre c post sc fs. cs = pre @ c # post \<and>
            calculate_score f db alert c = Inr (sc, fs) \<and>
            r = make_result c sc fs \<and> bs < sc \<and> MINIMUM_MATCH_THRESHOLD \<le> sc \<and>
            (\<forall>x \<in> set pre. \<exists>sx fx. calculate_score f db alert x = Inr (sx, fx) \<and> sx < sc) \<and>
            (\<forall>x \<in> set post. \<exists>sx fx. calculate_score f db alert x = Inr (sx, fx) \<and> sx \<le> sc))"
  using assms
proof (induction cs arbitrary: bm bs)
  case Nil
  then show ?case by simp
next
  case (Cons x xs)
  let ?C = "\<lambda>c. calculate_score f db alert c"
  show ?case
  proof (cases "?C x")
    case (Inl e)
    then show ?thesis using Cons.prems by simp
  next
    case (Inr p)
    obtain sx fx where p: "p = (sx, fx)" by (cases p) auto
    have cx: "?C x = Inr (sx, fx)" using Inr p by simp
    show ?thesis
    proof (cases "bs < sx \<and> MINIMUM_MATCH_THRESHOLD \<le> sx")
      case True
      then have run: "correlate_loop f db alert xs (Some (make_result x sx fx)) sx = Inr (Some r)"
        using Cons.prems cx by simp
      from Cons.IH [OF run] show ?thesis
      proof
        assume a: "Some (make_result x sx fx) = Some r \<and>
            (\<forall>c \<in> set xs. \<exists>sc fs. ?C c = Inr (sc, fs) \<and> \<not> (sx < sc \<and> MINIMUM_MATCH_THRESHOLD \<le> sc))"
        have post: "\<forall>c \<in> set xs. \<exists>sc fs. ?C c = Inr (sc, fs) \<and> sc \<le> sx"
          using a True by force
        have "x # xs = [] @ x # xs \<and> ?C x = Inr (sx, fx) \<and> r = make_result x sx fx \<and> bs < sx \<and>
            MINIMUM_MATCH_THRESHOLD \<le> sx \<and>
            (\<forall>y \<in> set []. \<exists>sy fy. ?C y = Inr (sy, fy) \<and> sy < sx) \<and>
            (\<forall>y \<in> set xs. \<exists>sy fy. ?C y = Inr (sy, fy) \<and> sy \<le> sx)"
          using a True post cx by simp
        then show ?thesis by blast
      next
        assume "\<exists>pre c post sc fs. xs = pre @ c # post \<and> ?C c = Inr (sc, fs) \<and>
            r = make_result c sc fs \<and> sx < sc \<and> MINIMUM_MATCH_THRESHOLD \<le> sc \<and>
            (\<forall>y \<in> set pre. \<exists>sy fy. ?C y = Inr (sy, fy) \<and> sy < sc) \<and>
            (\<forall>y \<in> set post. \<exists>sy fy. ?C y = Inr (sy, fy) \<and> sy \<le> sc)"
        then obtain pre c post sc fs where d: "xs = pre @ c # post" "?C c = Inr (sc, fs)"
            "r = make_result c sc fs" "sx < sc" "MINIMUM_MATCH_THRESHOLD \<le> sc"
            "\<forall>y \<in> set pre. \<exists>sy fy. ?C y = Inr (sy, fy) \<and> sy < sc"
            "\<forall>y \<in> set post. \<exists>sy fy. ?C y = Inr (sy, fy) \<and> sy \<le> sc"
          by blast
        have "x # xs = (x # pre) @ c # post \<and> ?C c = Inr (sc, fs) \<and> r = make_result c sc fs \<and>
            bs < sc \<and> MINIMUM_MATCH_THRESHOLD \<le> sc \<and>
            (\<forall>y \<in> set (x # pre). \<exists>sy fy. ?C y = Inr (sy, fy) \<and> sy < sc) \<and>
            (\<forall>y \<in> set post. \<exists>sy fy. ?C y = Inr (sy, fy) \<and> sy \<le> sc)"
          using d True cx by auto
        then show ?thesis by blast
      qed
    next
      case False
      then have run: "correlate_loop f db alert xs bm bs = Inr (Some r)"
        using Cons.prems cx by auto
      from Cons.IH [OF run] show ?thesis
      proof
        assume "bm = Some r \<and>
            (\<forall>c \<in> set xs. \<exists>sc fs. ?C c = Inr (sc, fs) \<and> \<not> (bs < sc \<and> MINIMUM_MATCH_THRESHOLD \<le> sc))"
        then show ?thesis using False cx by auto
      next
        assume "\<exists>pre c post sc fs. xs = pre @ c # post \<and> ?C c = Inr (sc, fs) \<and>
            r = make_result c sc fs \<and> bs < sc \<and> MINIMUM_MATCH_THRESHOLD \<le> sc \<and>
            (\<forall>y \<in> set pre. \<exists>sy fy. ?C y = Inr (sy, fy) \<and> sy < sc) \<and>
            (\<forall>y \<in> set post. \<exists>sy fy. ?C y = Inr (sy, fy) \<and> sy \<le> sc)"
        then obtain pre c post sc fs where d: "xs = pre @ c # post" "?C c = Inr (sc, fs)"
            "r = make_result c sc fs" "bs < sc" "MINIMUM_MATCH_THRESHOLD \<le> sc"
            "\<forall>y \<in> set pre. \<exists>sy fy. ?C y = Inr (sy, fy) \<and> sy < sc"
            "\<forall>y \<in> set post. \<exists>sy fy. ?C y = Inr (sy, fy) \<and> sy \<le> sc"
          by blast
        have "sx < sc"
          using False d(4,5) by auto
        then have "x # xs = (x # pre) @ c # post \<and> ?C c = Inr (sc, fs) \<and> r = make_result c sc fs \<and>
            bs < sc \<and> MINIMUM_MATCH_THRESHOLD \<le> sc \<and>
            (\<forall>y \<in> set (x # pre). \<exists>sy fy. ?C y = Inr (sy, fy) \<and> sy < sc) \<and>
            (\<forall>y \<in> set post. \<exists>sy fy. ?C y = Inr (sy, fy) \<and> sy \<le> sc)"
          using d cx by auto
        then show ?thesis by blast
      qed
    qed
  qed
qed

lemma correlate_loop_returns:
  "\<forall>c \<in> set cs. \<exists>sc fs. calculate_score f db alert c = Inr (sc, fs) \<Longrightarrow>
   \<exists>m. correlate_loop f db alert cs bm bs = Inr m"
proof (induction cs arbitrary: bm bs)
  case Nil
  then show ?case by simp
next
  case (Cons c cs)
  then obtain sc fs where c: "calculate_score f db alert c = Inr (sc, fs)"
    by auto
  show ?case
    using Cons.IH [of "Some (make_result c sc fs)" sc] Cons.IH [of bm bs] Cons.prems c
    by auto
qed

lemma calculate_score_store:
  "is_kb_approved db = is_kb_approved db' \<Longrightarrow>
   calculate_score f db alert c = calculate_score f db' alert c"
  by (simp add: calculate_score_def split: sum.splits)

lemma correlate_loop_store:
  "is_kb_approved db = is_kb_approved db' \<Longrightarrow>
   correlate_loop f db alert cs bm bs = correlate_loop f db' alert cs bm bs"
proof (induction cs arbitrary: bm bs)
  case Nil
  then show ?case by simp
next
  case (Cons c cs)
  have eq: "calculate_score f db alert c = calculate_score f db' alert c"
    using Cons.prems by (rule calculate_score_store)
  show ?case
  proof (cases "calculate_score f db' alert c")
    case (Inl e)
    then show ?thesis using eq by simp
  next
    case (Inr p)
    obtain sc fs where "p = (sc, fs)" by (cases p) auto
    then show ?thesis
      using Inr eq Cons.IH [OF Cons.prems] by simp
  qed
qed

lemma correlate_Some:
  assumes "correlate f now db alert = Inr (Some r)"
  shows "\<exists>pre c post sc fs.
           get_candidate_changes f now db alert = Inr (pre @ c # post) \<and>
           calculate_score f db alert c = Inr (sc, fs) \<and>
           r = make_result c sc fs \<and> MINIMUM_MATCH_THRESHOLD \<le> sc \<and>
           (\<forall>x \<in> set pre. \<exists>sx fx. calculate_score f db alert x = Inr (sx, fx) \<and> sx < sc) \<and>
           (\<forall>x \<in> set post. \<exists>sx fx. calculate_score f db alert x = Inr (sx, fx) \<and> sx \<le> sc)"
proof -
  obtain cs where cs: "get_candidate_changes f now db alert = Inr cs"
      and run: "correlate_loop f db alert cs None 0 = Inr (Some r)"
    using assms by (auto simp: correlate_def split: sum.splits if_splits)
  from correlate_loop_Some [OF run] obtain pre c post sc fs where
      d: "cs = pre @ c # post" "calculate_score f db alert c = Inr (sc, fs)"
        "r = make_result c sc fs" "MINIMUM_MATCH_THRESHOLD \<le> sc"
        "\<forall>x \<in> set pre. \<exists>sx fx. calculate_score f db alert x = Inr (sx, fx) \<and> sx < sc"
        "\<forall>x \<in> set post. \<exists>sx fx. calculate_score f db alert x = Inr (sx, fx) \<and> sx \<le> sc"
    by blast
  have "get_candidate_changes f now db alert = Inr (pre @ c # post)"
    using cs d(1) by simp
  then show ?thesis
    using d(2-6) by blast
qed

lemma correlate_None:
  assumes "get_candidate_changes f now db alert = Inr cs"
    and "\<forall>c \<in> set cs. \<exists>sc fs. calculate_score f db alert c = Inr (sc, fs) \<and>
                          sc < MINIMUM_MATCH_THRESHOLD"
  shows "correlate f now db alert = Inr None"
proof -
  have "correlate_loop f db alert cs None 0 = Inr None"
    unfolding correlate_loop_None using assms(2) by force
  then show ?thesis
    using assms(1) by (simp add: correlate_def)
qed

text \<open>
  C10. \<^verbatim>\<open>correlate\<close> is a function of the alert and of the list of candidates in
  its order: two stores that give the same candidates and approve the same patches give
  the same result. The match it returns carries the identifiers and the score of a
  candidate whose score is at least the minimum threshold, is strictly greater than the
  score of every candidate before it and is at least the score of every candidate after
  it: of several candidates with the highest score, the earliest. Where every candidate
  can be scored and one of them reaches the minimum threshold, it returns a match.
\<close>

theorem correlate_first_best:
  "(correlate f now db alert = Inr (Some r) \<longrightarrow>
      (\<exists>pre c post sc fs.
         get_candidate_changes f now db alert = Inr (pre @ c # post) \<and>
         calculate_score f db alert c = Inr (sc, fs) \<and>
         result_change_id r = change_id c \<and> result_ticket_id r = ticket_id c \<and>
         score r = sc \<and> result_factors r = fs \<and>
         MINIMUM_MATCH_THRESHOLD \<le> sc \<and>
         (\<forall>x \<in> set pre. \<exists>sx fx. calculate_score f db alert x = Inr (sx, fx) \<and> sx < sc) \<and>
         (\<forall>x \<in> set post. \<exists>sx fx. calculate_score f db alert x = Inr (sx, fx) \<and> sx \<le> sc))) \<and>
   (get_candidate_changes f now db alert = Inr cs \<and>
    (\<forall>x \<in> set cs. \<exists>sx fx. calculate_score f db alert x = Inr (sx, fx)) \<and>
    (\<exists>c \<in> set cs. \<exists>sc fs. calculate_score f db alert c = Inr (sc, fs) \<and>
                       MINIMUM_MATCH_THRESHOLD \<le> sc) \<longrightarrow>
      (\<exists>m. correlate f now db alert = Inr (Some m))) \<and>
   (get_candidate_changes f now db alert = get_candidate_changes f now' db' alert \<and>
    is_kb_approved db = is_kb_approved db' \<longrightarrow>
      correlate f now db alert = correlate f now' db' alert)"
proof -
  have first: "\<exists>pre c post sc fs.
         get_candidate_changes f now db alert = Inr (pre @ c # post) \<and>
         calculate_score f db alert c = Inr (sc, fs) \<and>
         result_change_id r = change_id c \<and> result_ticket_id r = ticket_id c \<and>
         score r = sc \<and> result_factors r = fs \<and>
         MINIMUM_MATCH_THRESHOLD \<le> sc \<and>
         (\<forall>x \<in> set pre. \<exists>sx fx. calculate_score f db alert x = Inr (sx, fx) \<and> sx < sc) \<and>
         (\<forall>x \<in> set post. \<exists>sx fx. calculate_score f db alert x = Inr (sx, fx) \<and> sx \<le> sc)"
    if c: "correlate f now db alert = Inr (Some r)"
  proof -
    from correlate_Some [OF c] obtain pre c post sc fs where d:
        "get_candidate_changes f now db alert = Inr (pre @ c # post)"
        "calculate_score f db alert c = Inr (sc, fs)"
        "r = make_result c sc fs" "MINIMUM_MATCH_THRESHOLD \<le> sc"
        "\<forall>x \<in> set pre. \<exists>sx fx. calculate_score f db alert x = Inr (sx, fx) \<and> sx < sc"
        "\<forall>x \<in> set post. \<exists>sx fx. calculate_score f db alert x = Inr (sx, fx) \<and> sx \<le> sc"
      by blast
    have "result_change_id r = change_id c \<and> result_ticket_id r = ticket_id c \<and>
        score r = sc \<and> result_factors r = fs"
      using d(3) by (simp add: make_result_def)
    then show ?thesis
      using d by blast
  qed
  have found: "\<exists>m. correlate f now db alert = Inr (Some m)"
    if cs: "get_candidate_changes f now db alert = Inr cs"
      and all: "\<forall>x \<in> set cs. \<exists>sx fx. calculate_score f db alert x = Inr (sx, fx)"
      and ex: "\<exists>c \<in> set cs. \<exists>sc fs. calculate_score f db alert c = Inr (sc, fs) \<and>
                       MINIMUM_MATCH_THRESHOLD \<le> sc"
  proof -
    from ex have ne: "cs \<noteq> []" by auto
    from correlate_loop_returns [OF all] obtain m where
      m: "correlate_loop f db alert cs None 0 = Inr m"
      by blast
    have "m \<noteq> None"
    proof
      assume "m = None"
      then have "\<forall>c \<in> set cs. \<exists>sc fs. calculate_score f db alert c = Inr (sc, fs) \<and>
          \<not> (0 < sc \<and> MINIMUM_MATCH_THRESHOLD \<le> sc)"
        using m by (simp add: correlate_loop_None)
      then show False
        using ex by (fastforce simp: MINIMUM_MATCH_THRESHOLD_def)
    qed
    then show ?thesis
      using cs ne m by (auto simp: correlate_def)
  qed
  have same: "correlate f now db alert = correlate f now' db' alert"
    if "get_candidate_changes f now db alert = get_candidate_changes f now' db' alert"
      and "is_kb_approved db = is_kb_approved db'"
    using that correlate_loop_store [OF that(2)] by (simp add: correlate_def split: sum.splits)
  show ?thesis
    using first found same by blast
qed

lemma sample_tie:
  "correlate no_iso_text (naive_at 0)
     (sample_store [sample_far_change, sample_change, sample_change2]) sample_alert
     = Inr (Some (make_result sample_change (95 / 100)
               \<lparr>factor_asset = 1, factor_time = 1, factor_type = 1, factor_kb = 1 / 2\<rparr>))"
  by (simp add: correlate_def sample_candidates sample_score sample_score2 sample_far_score
      MINIMUM_MATCH_THRESHOLD_def)

lemma sample_tickets:
  "ticket_id sample_far_change = ''CHG0000338773''" "ticket_id sample_change = ''CHG0000338771''"
  "ticket_id sample_change2 = ''CHG0000338772''" "ticket_id sample_mid_change = ''CHG0000338774''"
  by (simp_all add: sample_far_change_def sample_change_def sample_change2_def
      sample_mid_change_def)

theorem correlate_first_best_witness:
  "correlate no_iso_text (naive_at 0)
     (sample_store [sample_far_change, sample_change, sample_change2]) sample_alert
     = Inr (Some (make_result sample_change (95 / 100)
               \<lparr>factor_asset = 1, factor_time = 1, factor_type = 1, factor_kb = 1 / 2\<rparr>)) \<and>
   result_ticket_id (make_result sample_change (95 / 100)
       \<lparr>factor_asset = 1, factor_time = 1, factor_type = 1, factor_kb = 1 / 2\<rparr>)
     = ''CHG0000338771'' \<and>
   (\<exists>pre c post.
      [sample_far_change, sample_change, sample_change2] = pre @ c # post \<and>
      ticket_id c = ''CHG0000338771'' \<and>
      calculate_score no_iso_text
          (sample_store [sample_far_change, sample_change, sample_change2]) sample_alert c
        = Inr (95 / 100, \<lparr>factor_asset = 1, factor_time = 1, factor_type = 1, factor_kb = 1 / 2\<rparr>))"
proof -
  let ?db = "sample_store [sample_far_change, sample_change, sample_change2]"
  let ?r = "make_result sample_change (95 / 100)
               \<lparr>factor_asset = 1, factor_time = 1, factor_type = 1, factor_kb = 1 / 2\<rparr>"
  have t: "result_ticket_id ?r = ''CHG0000338771''"
    by (simp add: make_result_def sample_tickets)
  from correlate_first_best [of no_iso_text "naive_at 0" ?db sample_alert ?r] sample_tie
  obtain pre c post sc fs where d:
      "get_candidate_changes no_iso_text (naive_at 0) ?db sample_alert = Inr (pre @ c # post)"
      "calculate_score no_iso_text ?db sample_alert c = Inr (sc, fs)"
      "result_ticket_id ?r = ticket_id c" "score ?r = sc" "result_factors ?r = fs"
    by blast
  have "[sample_far_change, sample_change, sample_change2] = pre @ c # post \<and>
      ticket_id c = ''CHG0000338771'' \<and>
      calculate_score no_iso_text ?db sample_alert c
        = Inr (95 / 100, \<lparr>factor_asset = 1, factor_time = 1, factor_type = 1, factor_kb = 1 / 2\<rparr>)"
    using d t by (simp add: sample_candidates make_result_def)
  then show ?thesis
    using sample_tie t by blast
qed

subsection \<open>What the store's writes leave behind\<close>

lemma execute_eq:
  "execute stmt (t, fs) =
     (if fst (next_fault fs) then Inl DatabaseError else Inr (stmt t), snd (next_fault fs))"
  by (simp add: execute_def split: prod.splits)

lemma create_validation_cases:
  assumes "create_validation v db = (res, db')"
  shows "(res = Inl DatabaseError \<and> committed db' = committed db) \<or>
         (\<exists>row. res = Inr row \<and>
            committed db' = (committed db)\<lparr>validations := validations (committed db) @ [v]\<rparr>)"
  using assms
  by (auto simp: create_validation_def connection_def execute_eq split: prod.splits if_splits)

lemma update_alert_status_cases:
  assumes "update_alert_status alert_id status by_user db = (res, db')"
  shows "(res = Inl DatabaseError \<and> committed db' = committed db) \<or>
         (res = Inr () \<and>
            validations (committed db') = validations (committed db) \<and>
            alerts (committed db') =
              (if alert_id \<in> dom (alerts (committed db))
               then (alerts (committed db))(alert_id \<mapsto> status) else alerts (committed db)) \<and>
            length (audit_log (committed db')) = Suc (length (audit_log (committed db))))"
  using assms
  by (auto simp: update_alert_status_def connection_def execute_eq split: prod.splits if_splits)

subsection \<open>Thresholds\<close>

lemma correlate_and_validate_Inl:
  assumes c: "correlate f now db alert = Inl e"
  shows "correlate_and_validate f now vnow db alert_id alert dbs = (Inl e, dbs)"
  using c by (simp add: correlate_and_validate_def)

lemma correlate_and_validate_Some:
  assumes c: "correlate f now db alert = Inr (Some r)"
    and run: "correlate_and_validate f now vnow db alert_id alert dbs = (res, dbs')"
  shows "(res = Inl DatabaseError \<and> committed dbs' = committed dbs) \<or>
         (\<exists>v. validations (committed dbs') = validations (committed dbs) @ [v] \<and>
               validation_alert_id v = alert_id \<and> correlation_score v = score r \<and>
               validation_change_id v = Some (result_change_id r) \<and>
               validation_status v =
                 (if is_auto_validated r then ''auto_validated'' else ''pending_review'') \<and>
               ((res = Inl DatabaseError \<and> is_auto_validated r \<and>
                   alerts (committed dbs') = alerts (committed dbs) \<and>
                   audit_log (committed dbs') = audit_log (committed dbs)) \<or>
                ((\<exists>out. res = Inr out \<and> matched out \<and> auto_validated out = is_auto_validated r \<and>
                     outcome_score out = score r \<and>
                     outcome_ticket_id out = Some (result_ticket_id r)) \<and>
                  alerts (committed dbs') =
                    (if is_auto_validated r \<and> alert_id \<in> dom (alerts (committed dbs))
                     then (alerts (committed dbs))(alert_id \<mapsto> ''validated'')
                     else alerts (committed dbs)) \<and>
                  length (audit_log (committed dbs')) =
                    (if is_auto_validated r then Suc (length (audit_log (committed dbs)))
                     else length (audit_log (committed dbs))))))"
proof -
  define v where "v =
      \<lparr>validation_alert_id = alert_id, validation_change_id = Some (result_change_id r),
       correlation_score = score r, correlation_factors = Some (result_factors r),
       validation_status = (if is_auto_validated r then ''auto_validated'' else ''pending_review''),
       validated_by = (if is_auto_validated r then Some ''SYSTEM'' else None),
       validated_at = (if is_auto_validated r then Some vnow else None),
       validation_notes = None, auto_validation_rule = validation_rule r\<rparr>"
  define out where "out =
      \<lparr>matched = True, outcome_ticket_id = Some (result_ticket_id r),
       outcome_score = score r, auto_validated = is_auto_validated r,
       outcome_factors = Some (result_factors r)\<rparr>"
  have v: "validation_alert_id v = alert_id" "correlation_score v = score r"
      "validation_change_id v = Some (result_change_id r)"
      "validation_status v = (if is_auto_validated r then ''auto_validated'' else ''pending_review'')"
    by (simp_all add: v_def)
  have out: "matched out" "auto_validated out = is_auto_validated r" "outcome_score out = score r"
      "outcome_ticket_id out = Some (result_ticket_id r)"
    by (simp_all add: out_def)
  have run': "(res, dbs') =
      (case create_validation v dbs of
         (Inl e, dbs1) \<Rightarrow> (Inl e, dbs1)
       | (Inr row, dbs1) \<Rightarrow>
           if is_auto_validated r then
             (case update_alert_status alert_id ''validated'' ''SYSTEM'' dbs1 of
                (Inl e, dbs2) \<Rightarrow> (Inl e, dbs2)
              | (Inr u, dbs2) \<Rightarrow> (Inr out, dbs2))
           else (Inr out, dbs1))"
    using run c unfolding v_def out_def by (simp add: correlate_and_validate_def Let_def)
  obtain res1 dbs1 where cv: "create_validation v dbs = (res1, dbs1)"
    by (cases "create_validation v dbs") auto
  from create_validation_cases [OF cv] show ?thesis
  proof
    assume "res1 = Inl DatabaseError \<and> committed dbs1 = committed dbs"
    then show ?thesis
      using run' cv by simp
  next
    assume "\<exists>row. res1 = Inr row \<and>
        committed dbs1 = (committed dbs)\<lparr>validations := validations (committed dbs) @ [v]\<rparr>"
    then obtain row where ok: "res1 = Inr row"
        "committed dbs1 = (committed dbs)\<lparr>validations := validations (committed dbs) @ [v]\<rparr>"
      by blast
    show ?thesis
    proof (cases "is_auto_validated r")
      case False
      then have "res = Inr out \<and> dbs' = dbs1"
        using run' cv ok by simp
      then show ?thesis
        using ok False v out by (intro disjI2 exI [of _ v]) auto
    next
      case True
      obtain res2 dbs2 where ua: "update_alert_status alert_id ''validated'' ''SYSTEM'' dbs1 = (res2, dbs2)"
        by (cases "update_alert_status alert_id ''validated'' ''SYSTEM'' dbs1") auto
      from update_alert_status_cases [OF ua] show ?thesis
      proof
        assume f: "res2 = Inl DatabaseError \<and> committed dbs2 = committed dbs1"
        then have "res = Inl DatabaseError \<and> dbs' = dbs2"
          using run' cv ok ua True by simp
        then show ?thesis
          using ok f True v by (intro disjI2 exI [of _ v]) auto
      next
        assume s: "res2 = Inr () \<and> validations (committed dbs2) = validations (committed dbs1) \<and>
            alerts (committed dbs2) =
              (if alert_id \<in> dom (alerts (committed dbs1))
               then (alerts (committed dbs1))(alert_id \<mapsto> ''validated'') else alerts (committed dbs1)) \<and>
            length (audit_log (committed dbs2)) = Suc (length (audit_log (committed dbs1)))"
        then have "res = Inr out \<and> dbs' = dbs2"
          using run' cv ok ua True by simp
        then show ?thesis
          using ok s True v out by (intro disjI2 exI [of _ v]) auto
      qed
    qed
  qed
qed

lemma correlate_and_validate_None:
  assumes c: "correlate f now db alert = Inr None"
    and run: "correlate_and_validate f now vnow db alert_id alert dbs = (res, dbs')"
  shows "(res = Inl DatabaseError \<and> committed dbs' = committed dbs) \<or>
         ((\<exists>out. res = Inr out \<and> \<not> matched out \<and> \<not> auto_validated out) \<and>
          alerts (committed dbs') = alerts (committed dbs) \<and>
          audit_log (committed dbs') = audit_log (committed dbs) \<and>
          (\<exists>v. validations (committed dbs') = validations (committed dbs) @ [v] \<and>
               validation_alert_id v = alert_id \<and> validation_status v = ''pending_review''))"
proof -
  define v where "v =
      \<lparr>validation_alert_id = alert_id, validation_change_id = None,
       correlation_score = 0, correlation_factors = None,
       validation_status = ''pending_review'', validated_by = None,
       validated_at = None, validation_notes = Some ''No matching change ticket found'',
       auto_validation_rule = None\<rparr>"
  obtain res1 dbs1 where cv: "create_validation v dbs = (res1, dbs1)"
    by (cases "create_validation v dbs") auto
  from create_validation_cases [OF cv] show ?thesis
  proof
    assume "res1 = Inl DatabaseError \<and> committed dbs1 = committed dbs"
    then show ?thesis
      using run c cv by (simp add: correlate_and_validate_def Let_def v_def [symmetric])
  next
    assume "\<exists>row. res1 = Inr row \<and>
        committed dbs1 = (committed dbs)\<lparr>validations := validations (committed dbs) @ [v]\<rparr>"
    then obtain row where ok: "res1 = Inr row"
        "committed dbs1 = (committed dbs)\<lparr>validations := validations (committed dbs) @ [v]\<rparr>"
      by blast
    have "res = Inr \<lparr>matched = False, outcome_ticket_id = None, outcome_score = 0,
        auto_validated = False, outcome_factors = None\<rparr> \<and> dbs' = dbs1"
      using run c cv ok by (simp add: correlate_and_validate_def Let_def v_def [symmetric])
    then show ?thesis
      using ok by (intro disjI2 conjI exI [of _ v]) (simp_all add: v_def)
  qed
qed

text \<open>
  C3. \<^verbatim>\<open>correlate\<close> returns no match when the candidates can be scored and no
  weighted score reaches \<^verbatim>\<open>MINIMUM_MATCH_THRESHOLD\<close>. A match that it returns carries
  the identifiers and the score that \<^verbatim>\<open>_calculate_score\<close> gives for one of the
  candidates; that score is at least the minimum threshold, and the match is marked
  auto-validated exactly when that score is at least \<^verbatim>\<open>AUTO_VALIDATE_THRESHOLD\<close>: it
  is at 0.95 and it is not at 0.94. The validation row that
  \<^verbatim>\<open>correlate_and_validate\<close> then writes is for this candidate, with this score,
  \<^verbatim>\<open>auto_validated\<close> in the first case and \<^verbatim>\<open>pending_review\<close> in the second.
\<close>

theorem correlate_thresholds:
  "(get_candidate_changes f now db alert = Inr cs \<and>
    (\<forall>c \<in> set cs. \<exists>sc fs. calculate_score f db alert c = Inr (sc, fs) \<and>
                       sc < MINIMUM_MATCH_THRESHOLD) \<longrightarrow>
      correlate f now db alert = Inr None) \<and>
   (correlate f now db alert = Inr (Some r) \<longrightarrow>
      (\<exists>cands c sc fs.
         get_candidate_changes f now db alert = Inr cands \<and> c \<in> set cands \<and>
         calculate_score f db alert c = Inr (sc, fs) \<and>
         result_change_id r = change_id c \<and> result_ticket_id r = ticket_id c \<and>
         score r = sc \<and>
         MINIMUM_MATCH_THRESHOLD \<le> sc \<and>
         (is_auto_validated r \<longleftrightarrow> AUTO_VALIDATE_THRESHOLD \<le> sc) \<and>
         (sc = 95 / 100 \<longrightarrow> is_auto_validated r) \<and>
         (sc = 94 / 100 \<longrightarrow> \<not> is_auto_validated r) \<and>
         (\<forall>out dbs'.
            correlate_and_validate f now vnow db alert_id alert dbs = (Inr out, dbs') \<longrightarrow>
              auto_validated out = (AUTO_VALIDATE_THRESHOLD \<le> sc) \<and>
              outcome_score out = sc \<and>
              outcome_ticket_id out = Some (ticket_id c) \<and>
              (\<exists>v. validations (committed dbs') = validations (committed dbs) @ [v] \<and>
                   validation_alert_id v = alert_id \<and>
                   validation_change_id v = Some (change_id c) \<and>
                   correlation_score v = sc \<and>
                   validation_status v =
                     (if AUTO_VALIDATE_THRESHOLD \<le> sc then ''auto_validated''
                      else ''pending_review'')))))"
proof -
  have none: "get_candidate_changes f now db alert = Inr cs \<and>
    (\<forall>c \<in> set cs. \<exists>sc fs. calculate_score f db alert c = Inr (sc, fs) \<and>
                       sc < MINIMUM_MATCH_THRESHOLD) \<longrightarrow>
      correlate f now db alert = Inr None"
    using correlate_None [of f now db alert cs] by blast
  have some: "\<exists>cands c sc fs.
         get_candidate_changes f now db alert = Inr cands \<and> c \<in> set cands \<and>
         calculate_score f db alert c = Inr (sc, fs) \<and>
         result_change_id r = change_id c \<and> result_ticket_id r = ticket_id c \<and>
         score r = sc \<and>
         MINIMUM_MATCH_THRESHOLD \<le> sc \<and>
         (is_auto_validated r \<longleftrightarrow> AUTO_VALIDATE_THRESHOLD \<le> sc) \<and>
         (sc = 95 / 100 \<longrightarrow> is_auto_validated r) \<and>
         (sc = 94 / 100 \<longrightarrow> \<not> is_auto_validated r) \<and>
         (\<forall>out dbs'.
            correlate_and_validate f now vnow db alert_id alert dbs = (Inr out, dbs') \<longrightarrow>
              auto_validated out = (AUTO_VALIDATE_THRESHOLD \<le> sc) \<and>
              outcome_score out = sc \<and>
              outcome_ticket_id out = Some (ticket_id c) \<and>
              (\<exists>v. validations (committed dbs') = validations (committed dbs) @ [v] \<and>
                   validation_alert_id v = alert_id \<and>
                   validation_change_id v = Some (change_id c) \<and>
                   correlation_score v = sc \<and>
                   validation_status v =
                     (if AUTO_VALIDATE_THRESHOLD \<le> sc then ''auto_validated''
                      else ''pending_review'')))"
    if c: "correlate f now db alert = Inr (Some r)"
  proof -
    from correlate_Some [OF c] obtain pre cand post sc fs where
      cs: "get_candidate_changes f now db alert = Inr (pre @ cand # post)"
      and sc: "calculate_score f db alert cand = Inr (sc, fs)"
      and r: "r = make_result cand sc fs"
      and m: "MINIMUM_MATCH_THRESHOLD \<le> sc"
      by blast
    have mem: "cand \<in> set (pre @ cand # post)"
      by simp
    have ids: "result_change_id r = change_id cand" "result_ticket_id r = ticket_id cand"
        "score r = sc"
      using r by (simp_all add: make_result_def)
    have auto: "is_auto_validated r \<longleftrightarrow> AUTO_VALIDATE_THRESHOLD \<le> sc"
      using r by (simp add: make_result_def)
    have at95: "sc = 95 / 100 \<longrightarrow> is_auto_validated r"
      using auto by (simp add: AUTO_VALIDATE_THRESHOLD_def)
    have at94: "sc = 94 / 100 \<longrightarrow> \<not> is_auto_validated r"
      using auto by (simp add: AUTO_VALIDATE_THRESHOLD_def)
    have row: "auto_validated out = (AUTO_VALIDATE_THRESHOLD \<le> sc) \<and>
              outcome_score out = sc \<and>
              outcome_ticket_id out = Some (ticket_id cand) \<and>
              (\<exists>v. validations (committed dbs') = validations (committed dbs) @ [v] \<and>
                   validation_alert_id v = alert_id \<and>
                   validation_change_id v = Some (change_id cand) \<and>
                   correlation_score v = sc \<and>
                   validation_status v =
                     (if AUTO_VALIDATE_THRESHOLD \<le> sc then ''auto_validated''
                      else ''pending_review''))"
      if run: "correlate_and_validate f now vnow db alert_id alert dbs = (Inr out, dbs')"
      for out dbs'
      using correlate_and_validate_Some [OF c run] auto ids by auto
    show ?thesis
      using cs mem sc ids m auto at95 at94 row by blast
  qed
  show ?thesis
    using none some by blast
qed

lemma sample_match:
  "correlate no_iso_text (naive_at 0) (sample_store [sample_change]) sample_alert
     = Inr (Some (make_result sample_change (95 / 100)
               \<lparr>factor_asset = 1, factor_time = 1, factor_type = 1, factor_kb = 1 / 2\<rparr>))"
  by (simp add: correlate_def sample_candidates sample_score MINIMUM_MATCH_THRESHOLD_def)

lemma sample_mid_match:
  "correlate no_iso_text (naive_at 0) (sample_store [sample_mid_change]) sample_alert
     = Inr (Some (make_result sample_mid_change (81 / 100)
               \<lparr>factor_asset = 1, factor_time = 1, factor_type = 3 / 10, factor_kb = 1 / 2\<rparr>))"
  by (simp add: correlate_def sample_candidates sample_mid_score MINIMUM_MATCH_THRESHOLD_def)

lemma sample_no_match:
  "correlate no_iso_text (naive_at 0) (sample_store [sample_far_change]) sample_alert = Inr None"
  by (simp add: correlate_def sample_candidates sample_far_score MINIMUM_MATCH_THRESHOLD_def)

lemma sample_aware_correlate:
  "correlate no_iso_text (naive_at 0) (sample_store [sample_change]) sample_aware_alert
     = Inl TypeError"
  by (simp add: correlate_def sample_candidates sample_aware_score)

lemma sample_success_eval:
  "fst sample_success =
     Inr \<lparr>matched = True, outcome_ticket_id = Some ''CHG0000338771'', outcome_score = 95 / 100,
          auto_validated = True,
          outcome_factors = Some \<lparr>factor_asset = 1, factor_time = 1, factor_type = 1,
                                   factor_kb = 1 / 2\<rparr>\<rparr> \<and>
   map validation_status (validations (committed (snd sample_success))) = [''auto_validated''] \<and>
   alerts (committed (snd sample_success)) 1 = Some ''validated''"
  unfolding sample_success_def correlate_and_validate_def sample_match
  by (simp add: make_result_def AUTO_VALIDATE_THRESHOLD_def sample_change_def sample_database_def
      create_validation_def update_alert_status_def connection_def execute_def next_fault_def)

lemma sample_mid_eval:
  "correlate_and_validate no_iso_text (naive_at 0) ''2000-01-01T00:00:00''
       (sample_store [sample_mid_change]) 1 sample_alert (sample_database []) =
     (Inr \<lparr>matched = True, outcome_ticket_id = Some ''CHG0000338774'', outcome_score = 81 / 100,
           auto_validated = False,
           outcome_factors = Some \<lparr>factor_asset = 1, factor_time = 1, factor_type = 3 / 10,
                                    factor_kb = 1 / 2\<rparr>\<rparr>,
      \<lparr>committed =
         \<lparr>validations =
            [\<lparr>validation_alert_id = 1, validation_change_id = Some 10,
              correlation_score = 81 / 100,
              correlation_factors = Some \<lparr>factor_asset = 1, factor_time = 1,
                                          factor_type = 3 / 10, factor_kb = 1 / 2\<rparr>,
              validation_status = ''pending_review'', validated_by = None, validated_at = None,
              validation_notes = None, auto_validation_rule = None\<rparr>],
          alerts = [1 \<mapsto> ''pending''], audit_log = []\<rparr>,
       faults = []\<rparr>)"
  unfolding correlate_and_validate_def sample_mid_match
  by (simp add: make_result_def get_validation_rule_def AUTO_VALIDATE_THRESHOLD_def
      sample_mid_change_def sample_change_def sample_database_def
      create_validation_def connection_def execute_def next_fault_def)

theorem correlate_thresholds_witness:
  "correlate no_iso_text (naive_at 0) (sample_store [sample_far_change]) sample_alert = Inr None \<and>
   is_auto_validated (make_result sample_change (95 / 100)
       \<lparr>factor_asset = 1, factor_time = 1, factor_type = 1, factor_kb = 1 / 2\<rparr>) \<and>
   (\<exists>v. validations (committed (snd sample_success)) = validations (committed (sample_database [])) @ [v] \<and>
        validation_change_id v = Some 7 \<and> correlation_score v = 95 / 100 \<and>
        validation_status v = ''auto_validated'') \<and>
   \<not> is_auto_validated (make_result sample_mid_change (81 / 100)
       \<lparr>factor_asset = 1, factor_time = 1, factor_type = 3 / 10, factor_kb = 1 / 2\<rparr>) \<and>
   (\<exists>v. validations (committed (snd (correlate_and_validate no_iso_text (naive_at 0)
             ''2000-01-01T00:00:00'' (sample_store [sample_mid_change]) 1 sample_alert
             (sample_database []))))
           = validations (committed (sample_database [])) @ [v] \<and>
        validation_change_id v = Some 10 \<and> correlation_score v = 81 / 100 \<and>
        validation_status v = ''pending_review'')"
proof -
  let ?hi = "make_result sample_change (95 / 100)
       \<lparr>factor_asset = 1, factor_time = 1, factor_type = 1, factor_kb = 1 / 2\<rparr>"
  let ?mid = "make_result sample_mid_change (81 / 100)
       \<lparr>factor_asset = 1, factor_time = 1, factor_type = 3 / 10, factor_kb = 1 / 2\<rparr>"
  let ?vnow = "''2000-01-01T00:00:00''"
  let ?run = "\<lambda>st. correlate_and_validate no_iso_text (naive_at 0) ?vnow st 1 sample_alert
      (sample_database [])"
  let ?B = "\<lambda>st r cands c sc fs.
      get_candidate_changes no_iso_text (naive_at 0) st sample_alert = Inr cands \<and> c \<in> set cands \<and>
      calculate_score no_iso_text st sample_alert c = Inr (sc, fs) \<and>
      result_change_id r = change_id c \<and> result_ticket_id r = ticket_id c \<and>
      score r = sc \<and>
      MINIMUM_MATCH_THRESHOLD \<le> sc \<and>
      (is_auto_validated r \<longleftrightarrow> AUTO_VALIDATE_THRESHOLD \<le> sc) \<and>
      (sc = 95 / 100 \<longrightarrow> is_auto_validated r) \<and>
      (sc = 94 / 100 \<longrightarrow> \<not> is_auto_validated r) \<and>
      (\<forall>out dbs'.
         ?run st = (Inr out, dbs') \<longrightarrow>
           auto_validated out = (AUTO_VALIDATE_THRESHOLD \<le> sc) \<and>
           outcome_score out = sc \<and>
           outcome_ticket_id out = Some (ticket_id c) \<and>
           (\<exists>v. validations (committed dbs') = validations (committed (sample_database [])) @ [v] \<and>
                validation_alert_id v = 1 \<and>
                validation_change_id v = Some (change_id c) \<and>
                correlation_score v = sc \<and>
                validation_status v =
                  (if AUTO_VALIDATE_THRESHOLD \<le> sc then ''auto_validated''
                   else ''pending_review'')))"
  have low: "\<forall>c \<in> set [sample_far_change].
      \<exists>sc fs. calculate_score no_iso_text (sample_store [sample_far_change]) sample_alert c
          = Inr (sc, fs) \<and> sc < MINIMUM_MATCH_THRESHOLD"
  proof
    fix c
    assume "c \<in> set [sample_far_change]"
    then have "c = sample_far_change" by simp
    then show "\<exists>sc fs. calculate_score no_iso_text (sample_store [sample_far_change]) sample_alert c
          = Inr (sc, fs) \<and> sc < MINIMUM_MATCH_THRESHOLD"
      by (intro exI [of _ "11 / 100"]
          exI [of _ "\<lparr>factor_asset = 0, factor_time = 0, factor_type = 3 / 10, factor_kb = 1 / 2\<rparr>"])
        (simp add: sample_far_score MINIMUM_MATCH_THRESHOLD_def)
  qed
  have a: "correlate no_iso_text (naive_at 0) (sample_store [sample_far_change]) sample_alert = Inr None"
    using correlate_thresholds [of no_iso_text "naive_at 0" "sample_store [sample_far_change]"
        sample_alert "[sample_far_change]"] low sample_candidates(1)
    by blast
  have "\<exists>cands c sc fs. ?B (sample_store [sample_change]) ?hi cands c sc fs"
    using correlate_thresholds [of no_iso_text "naive_at 0" "sample_store [sample_change]"
        sample_alert "[]" ?hi ?vnow 1 "sample_database []"] sample_match
    by blast
  then obtain cands c sc fs where hi: "?B (sample_store [sample_change]) ?hi cands c sc fs"
    by blast
  have hi_c: "c = sample_change \<and> sc = 95 / 100"
    using hi by (auto simp: sample_candidates sample_score)
  have b: "is_auto_validated ?hi"
    using hi hi_c by (simp add: AUTO_VALIDATE_THRESHOLD_def)
  obtain out where out: "?run (sample_store [sample_change]) = (Inr out, snd sample_success)"
    using sample_success_eval by (cases sample_success) (auto simp: sample_success_def)
  have "\<exists>v. validations (committed (snd sample_success)) = validations (committed (sample_database [])) @ [v] \<and>
        validation_alert_id v = 1 \<and>
        validation_change_id v = Some (change_id c) \<and> correlation_score v = sc \<and>
        validation_status v =
          (if AUTO_VALIDATE_THRESHOLD \<le> sc then ''auto_validated'' else ''pending_review'')"
    using hi out by blast
  then have c: "\<exists>v. validations (committed (snd sample_success)) = validations (committed (sample_database [])) @ [v] \<and>
        validation_change_id v = Some 7 \<and> correlation_score v = 95 / 100 \<and>
        validation_status v = ''auto_validated''"
    using hi_c by (auto simp: AUTO_VALIDATE_THRESHOLD_def sample_change_def)
  have "\<exists>cands c sc fs. ?B (sample_store [sample_mid_change]) ?mid cands c sc fs"
    using correlate_thresholds [of no_iso_text "naive_at 0" "sample_store [sample_mid_change]"
        sample_alert "[]" ?mid ?vnow 1 "sample_database []"] sample_mid_match
    by blast
  then obtain cands' c' sc' fs' where mid: "?B (sample_store [sample_mid_change]) ?mid cands' c' sc' fs'"
    by blast
  have mid_c: "c' = sample_mid_change \<and> sc' = 81 / 100"
    using mid by (auto simp: sample_candidates sample_mid_score)
  have d: "\<not> is_auto_validated ?mid"
    using mid mid_c by (simp add: AUTO_VALIDATE_THRESHOLD_def)
  obtain out' where out': "?run (sample_store [sample_mid_change])
      = (Inr out', snd (?run (sample_store [sample_mid_change])))"
    using sample_mid_eval by simp
  have "\<exists>v. validations (committed (snd (?run (sample_store [sample_mid_change]))))
          = validations (committed (sample_database [])) @ [v] \<and>
        validation_alert_id v = 1 \<and>
        validation_change_id v = Some (change_id c') \<and> correlation_score v = sc' \<and>
        validation_status v =
          (if AUTO_VALIDATE_THRESHOLD \<le> sc' then ''auto_validated'' else ''pending_review'')"
    using mid out' by blast
  then have e: "\<exists>v. validations (committed (snd (?run (sample_store [sample_mid_change]))))
           = validations (committed (sample_database [])) @ [v] \<and>
        validation_change_id v = Some 10 \<and> correlation_score v = 81 / 100 \<and>
        validation_status v = ''pending_review''"
    using mid_c by (auto simp: AUTO_VALIDATE_THRESHOLD_def sample_mid_change_def)
  show ?thesis
    using a b c d e by blast
qed

subsection \<open>The write path\<close>

text \<open>
  C9, as stated: the creation of the validation row and the update of the alert's status
  are claimed to succeed or fail together. They are two calls of the store, each with a
  connection and a commit of its own. When the update fails after the validation row has
  been committed, the row stays: the store holds an \<^verbatim>\<open>auto_validated\<close> validation for
  alert 1, whose status is still \<^verbatim>\<open>pending\<close>.
\<close>

theorem write_path_not_atomic:
  "fst sample_partial_failure = Inl DatabaseError \<and>
   map validation_alert_id (validations (committed (snd sample_partial_failure))) = [1] \<and>
   map validation_status (validations (committed (snd sample_partial_failure))) = [''auto_validated''] \<and>
   alerts (committed (snd sample_partial_failure)) 1 = Some ''pending''"
  unfolding sample_partial_failure_def correlate_and_validate_def sample_match
  by (simp add: make_result_def AUTO_VALIDATE_THRESHOLD_def sample_change_def sample_database_def
      create_validation_def update_alert_status_def connection_def execute_def next_fault_def)

text \<open>
  C9, amended. Each of the two writes is atomic on its own, and the validation row is
  written first. If no validation row has been added, the call has failed and the store
  is as it was: with an error of the database, or with the exception that
  \<^verbatim>\<open>correlate\<close> raised before any write. If the status of an alert has changed, an
  \<^verbatim>\<open>auto_validated\<close> validation row for the alert has been added, and the audit entry
  of the update has been written with it. If the call returns, the row has been added and
  the alert's status is \<^verbatim>\<open>validated\<close> exactly when the match was auto-validated (and
  the alert exists).
\<close>

theorem write_path_validation_first:
  assumes run: "correlate_and_validate f now vnow db alert_id alert dbs = (res, dbs')"
  shows "(validations (committed dbs') = validations (committed dbs) \<longrightarrow>
            committed dbs' = committed dbs \<and>
            (res = Inl DatabaseError \<or>
             (\<exists>e. correlate f now db alert = Inl e \<and> res = Inl e \<and> dbs' = dbs))) \<and>
         (alerts (committed dbs') \<noteq> alerts (committed dbs) \<longrightarrow>
            (\<exists>v. validations (committed dbs') = validations (committed dbs) @ [v] \<and>
                 validation_alert_id v = alert_id \<and> validation_status v = ''auto_validated'') \<and>
            length (audit_log (committed dbs')) = Suc (length (audit_log (committed dbs)))) \<and>
         (\<forall>out. res = Inr out \<longrightarrow>
            (\<exists>v. validations (committed dbs') = validations (committed dbs) @ [v] \<and>
                 validation_alert_id v = alert_id \<and>
                 (validation_status v = ''auto_validated'' \<longleftrightarrow> auto_validated out)) \<and>
            alerts (committed dbs') =
              (if auto_validated out \<and> alert_id \<in> dom (alerts (committed dbs))
               then (alerts (committed dbs))(alert_id \<mapsto> ''validated'')
               else alerts (committed dbs)))"
proof (cases "correlate f now db alert")
  case (Inl e)
  from correlate_and_validate_Inl [OF Inl] run show ?thesis
    using Inl by auto
next
  case (Inr m)
  show ?thesis
  proof (cases m)
    case None
    from correlate_and_validate_None [OF Inr [unfolded None] run] show ?thesis
      by auto
  next
    case (Some r)
    from correlate_and_validate_Some [OF Inr [unfolded Some] run] show ?thesis
      by (auto split: if_splits)
  qed
qed

theorem write_path_validation_first_witness:
  "alerts (committed (snd sample_success)) \<noteq> alerts (committed (sample_database [])) \<and>
   (\<exists>v. validations (committed (snd sample_success)) = validations (committed (sample_database [])) @ [v] \<and>
        validation_alert_id v = 1 \<and> validation_status v = ''auto_validated'')"
proof -
  have run: "correlate_and_validate no_iso_text (naive_at 0) ''2000-01-01T00:00:00''
      (sample_store [sample_change]) 1 sample_alert
      (sample_database []) = (fst sample_success, snd sample_success)"
    by (simp add: sample_success_def)
  have "alerts (committed (snd sample_success)) 1 \<noteq> alerts (committed (sample_database [])) 1"
    using sample_success_eval by (simp add: sample_database_def)
  then have ne: "alerts (committed (snd sample_success)) \<noteq> alerts (committed (sample_database []))"
    by metis
  show ?thesis
    using write_path_validation_first [OF run] ne by blast
qed

subsection \<open>The waterfall of the validation processor\<close>

lemma sample_no_chg_numbers: "extract_chg_numbers id (comment sample_exception) = []"
  by (simp add: extract_chg_numbers_def sample_exception_def eval_text)

text \<open>
  C1, as stated: when the direct path and the patch path do not validate,
  \<^verbatim>\<open>process_exception\<close> is claimed to call \<^verbatim>\<open>correlate\<close> and to report its match.
  For the sample exception, which has no ticket number and is no patch exception, the
  alert made of it matches the sample change with a score of 0.95, auto-validated by
  \<^verbatim>\<open>correlate\<close>; \<^verbatim>\<open>process_exception\<close> reports \<^verbatim>\<open>none\<close>, not validated, with
  confidence 0.
\<close>

theorem process_exception_skips_generic_path:
  "alert_of_exception ''2000-01-01T00:00:00'' sample_exception = sample_alert \<and>
   extract_chg_numbers id (comment sample_exception) = [] \<and>
   correlate no_iso_text (naive_at 0) (sample_store [sample_change]) sample_alert
     = Inr (Some (make_result sample_change (95 / 100)
               \<lparr>factor_asset = 1, factor_time = 1, factor_type = 1, factor_kb = 1 / 2\<rparr>)) \<and>
   score (make_result sample_change (95 / 100)
       \<lparr>factor_asset = 1, factor_time = 1, factor_type = 1, factor_kb = 1 / 2\<rparr>) = 95 / 100 \<and>
   is_auto_validated (make_result sample_change (95 / 100)
       \<lparr>factor_asset = 1, factor_time = 1, factor_type = 1, factor_kb = 1 / 2\<rparr>) \<and>
   fst (process_exception id (Some sample_snow) (sample_store [sample_change]) sample_exception) =
     \<lparr>result_exception_type = ''software_installed'',
      result_detected_at = DtObject (naive_at 30),
      result_asset_group = ''QASASM1'', correlation_method = Some ''none'',
      is_validated = False, confidence = 0, matched_tickets = [],
      result_notes = [''No matching change ticket found - manual review required'']\<rparr>"
proof -
  have a: "alert_of_exception ''2000-01-01T00:00:00'' sample_exception = sample_alert"
    by (simp add: alert_of_exception_def sample_exception_def sample_alert_def eval_text)
  have c: "score (make_result sample_change (95 / 100)
       \<lparr>factor_asset = 1, factor_time = 1, factor_type = 1, factor_kb = 1 / 2\<rparr>) = 95 / 100"
    by (simp add: make_result_def)
  have d: "is_auto_validated (make_result sample_change (95 / 100)
       \<lparr>factor_asset = 1, factor_time = 1, factor_type = 1, factor_kb = 1 / 2\<rparr>)"
    by (simp add: make_result_def AUTO_VALIDATE_THRESHOLD_def)
  have e: "fst (process_exception id (Some sample_snow) (sample_store [sample_change]) sample_exception) =
     \<lparr>result_exception_type = ''software_installed'',
      result_detected_at = DtObject (naive_at 30),
      result_asset_group = ''QASASM1'', correlation_method = Some ''none'',
      is_validated = False, confidence = 0, matched_tickets = [],
      result_notes = [''No matching change ticket found - manual review required'']\<rparr>"
    unfolding process_exception_def sample_no_chg_numbers
    by (simp add: sample_exception_def)
  show ?thesis using a sample_no_chg_numbers sample_match c d e by simp
qed

text \<open>
  C1, amended. When the direct path does not validate (no ticket number in the comment,
  no connector, a lookup that fails or that finds no change approved and closed) and the
  patch path does not validate (the exception is no patch exception, or the store
  approves none of its patch identifiers), the result of \<^verbatim>\<open>process_exception\<close> is the
  no-match outcome: method \<^verbatim>\<open>none\<close>, not validated, confidence 0, no matched ticket,
  and the note of the manual review after the note of the ticket numbers found. It is
  this outcome whatever changes the store holds: \<^verbatim>\<open>process_exception\<close> does not ask
  for them.
\<close>

theorem process_exception_no_match:
  assumes direct: "correlate_with_direct_lookup snow
                     (extract_chg_numbers set_iter (comment exception)) = None"
    and patch: "exception_type exception = Some ''patches_installed'' \<longrightarrow>
                  (\<forall>kb \<in> set (patch_kb_numbers exception). \<not> is_kb_approved db kb)"
  shows "fst (process_exception set_iter snow db exception) =
     \<lparr>result_exception_type = (case exception_type exception of None \<Rightarrow> ''unknown'' | Some t \<Rightarrow> t),
      result_detected_at = (case exception_detected_at exception of None \<Rightarrow> DtOther | Some d \<Rightarrow> d),
      result_asset_group = (case asset_group exception of None \<Rightarrow> [] | Some g \<Rightarrow> g),
      correlation_method = Some ''none'', is_validated = False, confidence = 0,
      matched_tickets = [],
      result_notes =
        (if extract_chg_numbers set_iter (comment exception) \<noteq> []
         then [''CHG numbers found: '' @
               repr_list (extract_chg_numbers set_iter (comment exception))]
         else []) @
        [''No matching change ticket found - manual review required'']\<rparr> \<and>
   process_exception set_iter snow (db\<lparr>get_changes_in_window := changes\<rparr>) exception =
     process_exception set_iter snow db exception"
proof -
  have none: "find (is_kb_approved db) (patch_kb_numbers exception) = None"
    if "exception_type exception = Some ''patches_installed''"
    using patch that by (simp add: find_None_iff)
  have a: "fst (process_exception set_iter snow db exception) =
     \<lparr>result_exception_type = (case exception_type exception of None \<Rightarrow> ''unknown'' | Some t \<Rightarrow> t),
      result_detected_at = (case exception_detected_at exception of None \<Rightarrow> DtOther | Some d \<Rightarrow> d),
      result_asset_group = (case asset_group exception of None \<Rightarrow> [] | Some g \<Rightarrow> g),
      correlation_method = Some ''none'', is_validated = False, confidence = 0,
      matched_tickets = [],
      result_notes =
        (if extract_chg_numbers set_iter (comment exception) \<noteq> []
         then [''CHG numbers found: '' @
               repr_list (extract_chg_numbers set_iter (comment exception))]
         else []) @
        [''No matching change ticket found - manual review required'']\<rparr>"
  proof (cases "exception_type exception = Some ''patches_installed''")
    case True
    then show ?thesis
      using direct none [OF True] by (simp add: process_exception_def Let_def)
  next
    case False
    then show ?thesis
      using direct by (simp add: process_exception_def Let_def)
  qed
  have b: "process_exception set_iter snow (db\<lparr>get_changes_in_window := changes\<rparr>) exception =
     process_exception set_iter snow db exception"
    by (simp add: process_exception_def Let_def cong: if_cong option.case_cong)
  show ?thesis
    using a b by simp
qed

theorem process_exception_no_match_witness:
  "fst (process_exception id (Some sample_snow) (sample_store []) sample_exception) =
     \<lparr>result_exception_type = ''software_installed'',
      result_detected_at = DtObject (naive_at 30),
      result_asset_group = ''QASASM1'', correlation_method = Some ''none'',
      is_validated = False, confidence = 0, matched_tickets = [],
      result_notes = [''No matching change ticket found - manual review required'']\<rparr> \<and>
   process_exception id (Some sample_snow) (sample_store [sample_change]) sample_exception =
     process_exception id (Some sample_snow) (sample_store []) sample_exception"
proof -
  have direct: "correlate_with_direct_lookup (Some sample_snow)
      (extract_chg_numbers id (comment sample_exception)) = None"
    by (simp add: sample_no_chg_numbers correlate_with_direct_lookup_def)
  have patch: "exception_type sample_exception = Some ''patches_installed'' \<longrightarrow>
      (\<forall>kb \<in> set (patch_kb_numbers sample_exception). \<not> is_kb_approved (sample_store []) kb)"
    by (simp add: sample_exception_def)
  have st: "(sample_store [])\<lparr>get_changes_in_window := \<lambda>s e a. [sample_change]\<rparr>
      = sample_store [sample_change]"
    by (simp add: sample_store_def)
  have e: "extract_chg_numbers id (Some ''Routine maintenance'') = []"
    by (simp add: extract_chg_numbers_def eval_text)
  show ?thesis
    using process_exception_no_match [OF direct patch, of "\<lambda>s e a. [sample_change]"]
    by (simp add: st e sample_exception_def)
qed

lemma sample_chg_numbers:
  "extract_chg_numbers id (comment sample_chg_exception) = [''CHG0000338771'']"
  by (simp add: extract_chg_numbers_def sample_chg_exception_def sample_exception_def eval_text)

lemma sample_lookup: "sample_snow [''CHG0000338771''] = Inr [sample_change]"
  by (simp add: sample_snow_def sample_change_def)

lemma sample_change_closed: "approved_and_closed sample_change"
  by (simp add: approved_and_closed_def sample_change_def eval_text)

text \<open>
  C2, as stated: the result of the direct path is claimed to carry the rule
  \<^verbatim>\<open>direct_ticket_lookup\<close>. For the sample exception with a ticket number that the
  connector finds approved and closed, the result is validated with confidence 1 and its
  method is \<^verbatim>\<open>direct_chg_lookup\<close>.
\<close>

theorem direct_lookup_rule_name:
  "is_validated (fst (process_exception id (Some sample_snow) (sample_store []) sample_chg_exception)) \<and>
   confidence (fst (process_exception id (Some sample_snow) (sample_store []) sample_chg_exception)) = 1 \<and>
   correlation_method (fst (process_exception id (Some sample_snow) (sample_store [])
       sample_chg_exception)) = Some ''direct_chg_lookup'' \<and>
   correlation_method (fst (process_exception id (Some sample_snow) (sample_store [])
       sample_chg_exception)) \<noteq> Some ''direct_ticket_lookup''"
  unfolding process_exception_def sample_chg_numbers
  by (simp add: correlate_with_direct_lookup_def sample_lookup sample_change_closed Let_def)

text \<open>
  C2, amended. When the comment holds ticket numbers, a connector is configured, and its
  lookup of these numbers returns a change that is approved and whose state contains
  \<^verbatim>\<open>closed\<close>, the result is validated with confidence 1, method
  \<^verbatim>\<open>direct_chg_lookup\<close> and the ticket numbers as matched tickets. No later step is
  taken: the result holds the two notes of the direct path only, it is the same for
  every store, and the exception is left as it was.
\<close>

theorem process_exception_direct_lookup:
  assumes chg: "chg_numbers = extract_chg_numbers set_iter (comment exception)"
    and ne: "chg_numbers \<noteq> []"
    and snow: "snow = Some lookup_multiple_chg"
    and found: "lookup_multiple_chg chg_numbers = Inr changes"
    and ok: "\<exists>c \<in> set changes. approval_status c = Some ''approved'' \<and>
               contains ''closed'' (lower (case state c of None \<Rightarrow> [] | Some s \<Rightarrow> s))"
  shows "process_exception set_iter snow db exception =
     (\<lparr>result_exception_type = (case exception_type exception of None \<Rightarrow> ''unknown'' | Some t \<Rightarrow> t),
       result_detected_at = (case exception_detected_at exception of None \<Rightarrow> DtOther | Some d \<Rightarrow> d),
       result_asset_group = (case asset_group exception of None \<Rightarrow> [] | Some g \<Rightarrow> g),
       correlation_method = Some ''direct_chg_lookup'', is_validated = True, confidence = 1,
       matched_tickets = chg_numbers,
       result_notes = [''CHG numbers found: '' @ repr_list chg_numbers,
                       ''Auto-validated via direct CHG lookup'']\<rparr>,
      exception)"
proof -
  have "filter approved_and_closed changes \<noteq> []"
    using ok by (auto simp: filter_empty_conv approved_and_closed_def)
  then have "correlate_with_direct_lookup snow chg_numbers =
      Some \<lparr>direct_is_validated = True, direct_confidence = 1,
            matched_changes = filter approved_and_closed changes,
            direct_rule = ''direct_chg_lookup''\<rparr>"
    using ne snow found by (simp add: correlate_with_direct_lookup_def)
  then show ?thesis
    using ne snow chg by (simp add: process_exception_def Let_def)
qed

theorem process_exception_direct_lookup_witness:
  "process_exception id (Some sample_snow) (sample_store []) sample_chg_exception =
     (\<lparr>result_exception_type = ''software_installed'',
       result_detected_at = DtObject (naive_at 30),
       result_asset_group = ''QASASM1'',
       correlation_method = Some ''direct_chg_lookup'', is_validated = True, confidence = 1,
       matched_tickets = [''CHG0000338771''],
       result_notes = [''CHG numbers found: '' @ repr_list [''CHG0000338771''],
                       ''Auto-validated via direct CHG lookup'']\<rparr>,
      sample_chg_exception)"
proof -
  have ok: "\<exists>c \<in> set [sample_change]. approval_status c = Some ''approved'' \<and>
               contains ''closed'' (lower (case state c of None \<Rightarrow> [] | Some s \<Rightarrow> s))"
    using sample_change_closed by (simp add: approved_and_closed_def)
  show ?thesis
    using process_exception_direct_lookup [where set_iter = id and exception = sample_chg_exception
        and chg_numbers = "[''CHG0000338771'']" and snow = "Some sample_snow"
        and lookup_multiple_chg = sample_snow and changes = "[sample_change]"
        and db = "sample_store []"]
      sample_chg_numbers sample_lookup ok
    by (simp add: sample_chg_exception_def sample_exception_def)
qed

end
